theory Spec2Isabelle
  imports Complex_Main
begin

section \<open>Values, arrays and errors\<close>

text \<open>
  The artists of \<^verbatim>\<open>biaplotter/artists.py\<close> compute on NumPy arrays of floats and integers.
  A value is a number, one of the two infinities or \<open>NaN\<close>. A number is kept as a rational:
  an integer of an integer array is itself, a \<^verbatim>\<open>float64\<close> is the rational it denotes, and
  a decimal literal of the code is the decimal it is written as (\<^verbatim>\<open>0.01\<close> is \<open>1 / 100\<close>).
  Arithmetic is the arithmetic of \<^verbatim>\<open>float64\<close>: each operand is converted to the nearest
  \<^verbatim>\<open>float64\<close> and the exact result is rounded to the nearest \<^verbatim>\<open>float64\<close>, ties to the even
  significand, overflowing to an infinity; \<open>NaN\<close> propagates, and the sum of the two
  infinities is \<open>NaN\<close>. The sign of a zero is not kept.
\<close>

datatype fval = NaN | Num rat | PInf | NInf

datatype py_error = TypeError | ValueError | KeyError | AttributeError | IndexError

fun isnan :: "fval \<Rightarrow> bool" where
  "isnan NaN = True"
| "isnan _ = False"

fun is_num :: "fval \<Rightarrow> bool" where
  "is_num (Num q) = True"
| "is_num _ = False"

text \<open>The number of binary digits of a positive integer.\<close>

function bit_length :: "int \<Rightarrow> nat" where
  "bit_length n = (if n \<le> 0 then 0 else Suc (bit_length (n div 2)))"
  by pat_completeness auto
termination
  by (relation "measure nat") auto

declare bit_length.simps [simp del]

definition pow2 :: "int \<Rightarrow> rat" where
  "pow2 e = (if 0 \<le> e then of_int (2 ^ nat e) else 1 / of_int (2 ^ nat (- e)))"

text \<open>The nearest integer, a tie going to the even one.\<close>

definition round_half_even :: "rat \<Rightarrow> int" where
  "round_half_even q =
     (let f = \<lfloor>q\<rfloor>; r = q - of_int f
      in if r < 1 / 2 then f else if 1 / 2 < r then f + 1 else if even f then f else f + 1)"

text \<open>The exponent \<open>e\<close> with \<open>2 ^ e \<le> a < 2 ^ (e + 1)\<close>, for \<open>a > 0\<close>.\<close>

definition binade :: "rat \<Rightarrow> int" where
  "binade a =
     (case quotient_of a of (p, d) \<Rightarrow>
        let e0 = int (bit_length p) - int (bit_length d)
        in if pow2 e0 \<le> a then e0 else e0 - 1)"

text \<open>
  Rounding to \<^verbatim>\<open>float64\<close>: a significand of 53 bits, the exponents \<open>-1022\<close> to \<open>1023\<close>,
  subnormal numbers below them; \<open>9007199254740992\<close> is \<open>2 ^ 53\<close>.
\<close>

definition round_double :: "rat \<Rightarrow> fval" where
  "round_double q =
     (if q = 0 then Num 0
      else let a = \<bar>q\<bar>;
               e = max (binade a) (- 1022);
               m = round_half_even (a / pow2 (e - 52))
           in if 1024 \<le> e \<or> (e = 1023 \<and> 9007199254740992 \<le> m)
              then (if 0 < q then PInf else NInf)
              else Num ((if 0 < q then 1 else - 1) * of_int m * pow2 (e - 52)))"

text \<open>A value read as a \<^verbatim>\<open>float64\<close>, and \<^verbatim>\<open>np.isfinite\<close> of it.\<close>

fun to_double :: "fval \<Rightarrow> fval" where
  "to_double (Num q) = round_double q"
| "to_double v = v"

definition isfinite :: "fval \<Rightarrow> bool" where
  "isfinite v = is_num (to_double v)"

fun fneg :: "fval \<Rightarrow> fval" where
  "fneg (Num q) = Num (- q)"
| "fneg PInf = NInf"
| "fneg NInf = PInf"
| "fneg NaN = NaN"

text \<open>\<open>a + b\<close>, \<open>a - b\<close>, \<open>a * b\<close> and \<open>a / b\<close> on two \<^verbatim>\<open>float64\<close>, then on two values.\<close>

fun add_doubles :: "fval \<Rightarrow> fval \<Rightarrow> fval" where
  "add_doubles (Num a) (Num b) = round_double (a + b)"
| "add_doubles NaN b = NaN"
| "add_doubles a NaN = NaN"
| "add_doubles PInf NInf = NaN"
| "add_doubles NInf PInf = NaN"
| "add_doubles PInf b = PInf"
| "add_doubles NInf b = NInf"
| "add_doubles (Num a) b = b"

definition fadd :: "fval \<Rightarrow> fval \<Rightarrow> fval" where
  "fadd a b = add_doubles (to_double a) (to_double b)"

definition fsub :: "fval \<Rightarrow> fval \<Rightarrow> fval" where
  "fsub a b = add_doubles (to_double a) (fneg (to_double b))"

text \<open>An infinity with the sign of a finite factor.\<close>

definition signed_inf :: "bool \<Rightarrow> rat \<Rightarrow> fval" where
  "signed_inf positive q =
     (if q = 0 then NaN else if (0 < q) = positive then PInf else NInf)"

fun mul_doubles :: "fval \<Rightarrow> fval \<Rightarrow> fval" where
  "mul_doubles (Num a) (Num b) = round_double (a * b)"
| "mul_doubles NaN b = NaN"
| "mul_doubles a NaN = NaN"
| "mul_doubles PInf PInf = PInf"
| "mul_doubles PInf NInf = NInf"
| "mul_doubles NInf PInf = NInf"
| "mul_doubles NInf NInf = PInf"
| "mul_doubles PInf (Num b) = signed_inf True b"
| "mul_doubles NInf (Num b) = signed_inf False b"
| "mul_doubles (Num a) PInf = signed_inf True a"
| "mul_doubles (Num a) NInf = signed_inf False a"

definition fmul :: "fval \<Rightarrow> fval \<Rightarrow> fval" where
  "fmul a b = mul_doubles (to_double a) (to_double b)"

text \<open>
  Division by zero gives an infinity with the sign of the dividend, \<open>NaN\<close> for \<open>0 / 0\<close>. The
  statistic below divides only where the divisor is not zero (the \<^verbatim>\<open>where=counts != 0\<close> of
  \<^verbatim>\<open>np.divide\<close>).
\<close>

fun div_doubles :: "fval \<Rightarrow> fval \<Rightarrow> fval" where
  "div_doubles (Num a) (Num b) = (if b = 0 then signed_inf True a else round_double (a / b))"
| "div_doubles NaN b = NaN"
| "div_doubles a NaN = NaN"
| "div_doubles (Num a) b = Num 0"
| "div_doubles PInf (Num b) = (if 0 \<le> b then PInf else NInf)"
| "div_doubles NInf (Num b) = (if 0 \<le> b then NInf else PInf)"
| "div_doubles a b = NaN"

definition fdiv :: "fval \<Rightarrow> fval \<Rightarrow> fval" where
  "fdiv a b = div_doubles (to_double a) (to_double b)"

text \<open>\<open>v <= 0\<close>, \<open>v > t\<close> and \<open>a <= b\<close> on values: false as soon as one side is \<open>NaN\<close>.\<close>

fun fle0 :: "fval \<Rightarrow> bool" where
  "fle0 (Num q) = (q \<le> 0)"
| "fle0 NInf = True"
| "fle0 _ = False"

fun fgt :: "fval \<Rightarrow> rat \<Rightarrow> bool" where
  "fgt (Num q) t = (q > t)"
| "fgt PInf t = True"
| "fgt _ t = False"

fun fle :: "fval \<Rightarrow> fval \<Rightarrow> bool" where
  "fle (Num a) (Num b) = (a \<le> b)"
| "fle NaN b = False"
| "fle a NaN = False"
| "fle NInf b = True"
| "fle a PInf = True"
| "fle a b = False"

text \<open>
  NumPy index normalisation on an axis of size \<open>n\<close>: a negative index counts from the end,
  an index outside \<open>[-n, n)\<close> raises \<^verbatim>\<open>IndexError\<close>.
\<close>

definition norm_index :: "nat \<Rightarrow> int \<Rightarrow> nat option" where
  "norm_index n i =
     (if 0 \<le> i \<and> i < int n then Some (nat i)
      else if - int n \<le> i \<and> i < 0 then Some (nat (i + int n))
      else None)"

text \<open>A two-dimensional array is the list of its rows; \<open>g[x, y]\<close> and \<open>g[x, y] = v\<close>.\<close>

definition getitem2 :: "'a list list \<Rightarrow> int \<Rightarrow> int \<Rightarrow> py_error + 'a" where
  "getitem2 g x y =
     (case norm_index (length g) x of
        None \<Rightarrow> Inl IndexError
      | Some i \<Rightarrow>
          (case norm_index (length (g ! i)) y of
             None \<Rightarrow> Inl IndexError
           | Some j \<Rightarrow> Inr (g ! i ! j)))"

definition setitem2 :: "'a list list \<Rightarrow> int \<Rightarrow> int \<Rightarrow> 'a \<Rightarrow> py_error + 'a list list" where
  "setitem2 g x y v =
     (case norm_index (length g) x of
        None \<Rightarrow> Inl IndexError
      | Some i \<Rightarrow>
          (case norm_index (length (g ! i)) y of
             None \<Rightarrow> Inl IndexError
           | Some j \<Rightarrow> Inr (g[i := (g ! i)[j := v]])))"

text \<open>
  A computation that may raise returns \<open>Inl\<close> of the error; \<open>and_then\<close> sequences two of
  them, the first error ending the run.
\<close>

definition and_then :: "('e + 'a) \<Rightarrow> ('a \<Rightarrow> 'e + 'b) \<Rightarrow> 'e + 'b" where
  "and_then m f = (case m of Inl e \<Rightarrow> Inl e | Inr v \<Rightarrow> f v)"

text \<open>\<^verbatim>\<open>np.full((height, width), v)\<close>: a negative dimension raises \<^verbatim>\<open>ValueError\<close>.\<close>

definition np_full2 :: "int \<Rightarrow> int \<Rightarrow> 'a \<Rightarrow> py_error + 'a list list" where
  "np_full2 height width v =
     (if height < 0 \<or> width < 0 then Inl ValueError
      else Inr (replicate (nat height) (replicate (nat width) v)))"

text \<open>Python's \<^verbatim>\<open>max\<close> of a sequence: \<^verbatim>\<open>ValueError\<close> on the empty one.\<close>

fun py_max :: "int list \<Rightarrow> py_error + int" where
  "py_max [] = Inl ValueError"
| "py_max (x # xs) = Inr (fold max xs x)"

text \<open>
  \<^verbatim>\<open>np.median\<close> of a list of values: \<open>NaN\<close> as soon as one of them is \<open>NaN\<close> (and on the
  empty list), else the mean of the middle of the sorted values: of one value for an odd
  count, of the two middle ones for an even count.
\<close>

fun insort_fval :: "fval \<Rightarrow> fval list \<Rightarrow> fval list" where
  "insort_fval v [] = [v]"
| "insort_fval v (w # ws) = (if fle v w then v # w # ws else w # insort_fval v ws)"

definition sort_fval :: "fval list \<Rightarrow> fval list" where
  "sort_fval vs = foldr insort_fval vs []"

definition np_median :: "fval list \<Rightarrow> fval" where
  "np_median feats =
     (if list_ex isnan feats \<or> feats = [] then NaN
      else let s = sort_fval feats; n = length s in
        if even n then fdiv (fadd (s ! (n div 2 - 1)) (s ! (n div 2))) (Num 2)
        else to_double (s ! (n div 2)))"

section \<open>The statistic histogram\<close>

text \<open>
  \<^verbatim>\<open>Histogram2D._calculate_statistic_histogram(x_indices, y_indices, features, statistic)\<close>.
  The three loops run over \<^verbatim>\<open>zip(x_indices, y_indices, features)\<close>.
\<close>

text \<open>The \<^verbatim>\<open>'mean'\<close> loop: \<^verbatim>\<open>sums[x, y] += feature; counts[x, y] += 1\<close>.\<close>

fun mean_loop ::
  "(int \<times> int \<times> fval) list \<Rightarrow> fval list list \<Rightarrow> fval list list
     \<Rightarrow> py_error + (fval list list \<times> fval list list)" where
  "mean_loop [] sums0 counts = Inr (sums0, counts)"
| "mean_loop ((x, y, feature) # rest) sums0 counts =
     and_then (getitem2 sums0 x y) (\<lambda>s.
     and_then (setitem2 sums0 x y (fadd s feature)) (\<lambda>sums1.
     and_then (getitem2 counts x y) (\<lambda>c.
     and_then (setitem2 counts x y (fadd c (Num 1))) (\<lambda>counts1.
       mean_loop rest sums1 counts1))))"

text \<open>\<^verbatim>\<open>np.divide(sums, counts, out=statistic_histogram, where=counts != 0)\<close>.\<close>

definition divide_where :: "fval list list \<Rightarrow> fval list list \<Rightarrow> fval list list \<Rightarrow> fval list list" where
  "divide_where sums0 counts out =
     map (\<lambda>(srow, crow, orow).
            map (\<lambda>(s, c, out). if c \<noteq> Num 0 then fdiv s c else out) (zip srow (zip crow orow)))
         (zip sums0 (zip counts out))"

text \<open>
  The \<^verbatim>\<open>'median'\<close> branch collects the features of each cell in a
  \<^verbatim>\<open>defaultdict(list)\<close>, kept here as an association list in insertion order.
\<close>

fun dict_append :: "('k \<times> 'v list) list \<Rightarrow> 'k \<Rightarrow> 'v \<Rightarrow> ('k \<times> 'v list) list" where
  "dict_append [] k v = [(k, [v])]"
| "dict_append ((k', vs) # d) k v =
     (if k' = k then (k', vs @ [v]) # d else (k', vs) # dict_append d k v)"

fun feature_lists_loop ::
  "(int \<times> int \<times> fval) list \<Rightarrow> ((int \<times> int) \<times> fval list) list
     \<Rightarrow> ((int \<times> int) \<times> fval list) list" where
  "feature_lists_loop [] d = d"
| "feature_lists_loop ((x, y, feature) # rest) d =
     feature_lists_loop rest (dict_append d (x, y) feature)"

fun median_loop ::
  "((int \<times> int) \<times> fval list) list \<Rightarrow> fval list list \<Rightarrow> py_error + fval list list" where
  "median_loop [] statistic_histogram = Inr statistic_histogram"
| "median_loop (((x, y), feats) # rest) statistic_histogram =
     (if feats \<noteq> [] then
        and_then (setitem2 statistic_histogram x y (np_median feats)) (median_loop rest)
      else median_loop rest statistic_histogram)"

text \<open>
  The \<^verbatim>\<open>'sum'\<close> loop: \<^verbatim>\<open>if np.isnan(sums[x, y]): sums[x, y] = 0\<close>, then
  \<^verbatim>\<open>sums[x, y] += feature; sums_flags[x, y] = True\<close>.
\<close>

fun sum_loop ::
  "(int \<times> int \<times> fval) list \<Rightarrow> fval list list \<Rightarrow> bool list list
     \<Rightarrow> py_error + (fval list list \<times> bool list list)" where
  "sum_loop [] sums0 sums_flags = Inr (sums0, sums_flags)"
| "sum_loop ((x, y, feature) # rest) sums0 sums_flags =
     and_then (getitem2 sums0 x y) (\<lambda>s0.
     and_then (if isnan s0 then setitem2 sums0 x y (Num 0) else Inr sums0) (\<lambda>sums1.
     and_then (getitem2 sums1 x y) (\<lambda>s.
     and_then (setitem2 sums1 x y (fadd s feature)) (\<lambda>sums2.
     and_then (setitem2 sums_flags x y True) (\<lambda>flags1.
       sum_loop rest sums2 flags1)))))"

text \<open>\<^verbatim>\<open>statistic_histogram[sums_flags] = sums[sums_flags]\<close>.\<close>

definition assign_flagged :: "fval list list \<Rightarrow> bool list list \<Rightarrow> fval list list \<Rightarrow> fval list list" where
  "assign_flagged statistic_histogram sums_flags sums0 =
     map (\<lambda>(orow, frow, srow).
            map (\<lambda>(out, flag, s). if flag then s else out) (zip orow (zip frow srow)))
         (zip statistic_histogram (zip sums_flags sums0))"

definition calculate_statistic_histogram ::
  "int list \<Rightarrow> int list \<Rightarrow> fval list \<Rightarrow> string \<Rightarrow> py_error + fval list list" where
  "calculate_statistic_histogram x_indices y_indices features statistic =
     and_then (py_max x_indices) (\<lambda>mx.
     and_then (py_max y_indices) (\<lambda>my.
     let height = mx + 1; width = my + 1 in
     and_then (np_full2 height width NaN) (\<lambda>statistic_histogram.
     if statistic = ''mean'' then
       and_then (np_full2 height width (Num 0)) (\<lambda>sums0.
       and_then (np_full2 height width (Num 0)) (\<lambda>counts.
       and_then (mean_loop (zip x_indices (zip y_indices features)) sums0 counts)
         (\<lambda>(sums1, counts1). Inr (divide_where sums1 counts1 statistic_histogram))))
     else if statistic = ''median'' then
       median_loop (feature_lists_loop (zip x_indices (zip y_indices features)) [])
         statistic_histogram
     else if statistic = ''sum'' then
       and_then (np_full2 height width (Num 0)) (\<lambda>sums0.
       and_then (np_full2 height width False) (\<lambda>sums_flags.
       and_then (sum_loop (zip x_indices (zip y_indices features)) sums0 sums_flags)
         (\<lambda>(sums1, flags1). Inr (assign_flagged statistic_histogram flags1 sums1))))
     else Inr statistic_histogram)))"

section \<open>One-dimensional arrays\<close>

text \<open>
  A NumPy array of color indices has a dtype. \<open>IntArr\<close> is an array of the default integer
  type, the one \<^verbatim>\<open>np.array\<close> and \<^verbatim>\<open>np.full\<close> give to Python integers and the one the
  name \<^verbatim>\<open>int\<close> denotes as a dtype (\<^verbatim>\<open>int64\<close>); \<open>Int32Arr\<close> is an array of \<^verbatim>\<open>int32\<close>, which
  stands for the integer dtypes that differ from it; \<open>FloatArr\<close> is an array of
  \<^verbatim>\<open>float64\<close>. A value handed to a \<^verbatim>\<open>color_indices\<close> setter is \<^verbatim>\<open>None\<close>, a Python
  scalar or such an array.
\<close>

datatype ndarray = IntArr "int list" | FloatArr "fval list" | Int32Arr "int list"

datatype dtype = Int64 | Int32 | Float64

datatype scalar = PyInt int | PyFloat fval

datatype indices_value = NoneValue | Scalar scalar | Array ndarray

fun len :: "ndarray \<Rightarrow> nat" where
  "len (IntArr xs) = length xs"
| "len (FloatArr vs) = length vs"
| "len (Int32Arr xs) = length xs"

fun dtype_of :: "ndarray \<Rightarrow> dtype" where
  "dtype_of (IntArr xs) = Int64"
| "dtype_of (FloatArr vs) = Float64"
| "dtype_of (Int32Arr xs) = Int32"

text \<open>The test \<^verbatim>\<open>a.dtype != int\<close> of the setters, negated: \<^verbatim>\<open>a.dtype == int\<close>.\<close>

fun dtype_is_int :: "ndarray \<Rightarrow> bool" where
  "dtype_is_int (IntArr xs) = True"
| "dtype_is_int (FloatArr vs) = False"
| "dtype_is_int (Int32Arr xs) = False"

text \<open>The elements of an array as values.\<close>

fun as_floats :: "ndarray \<Rightarrow> fval list" where
  "as_floats (IntArr xs) = map (\<lambda>x. Num (of_int x)) xs"
| "as_floats (FloatArr vs) = vs"
| "as_floats (Int32Arr xs) = map (\<lambda>x. Num (of_int x)) xs"

text \<open>\<^verbatim>\<open>np.full(n, scalar)\<close>: the dtype is the scalar's.\<close>

fun np_full :: "nat \<Rightarrow> scalar \<Rightarrow> ndarray" where
  "np_full n (PyInt v) = IntArr (replicate n v)"
| "np_full n (PyFloat v) = FloatArr (replicate n v)"

text \<open>
  \<^verbatim>\<open>np.resize(a, n)\<close>: the first \<open>n\<close> elements of as many copies of \<open>a\<close> as are needed
  (\<open>ceil(n / len(a))\<close> of them); zeros when \<open>a\<close> is empty.
\<close>

definition resize_list :: "'a \<Rightarrow> 'a list \<Rightarrow> nat \<Rightarrow> 'a list" where
  "resize_list zero xs n =
     (if n = 0 then []
      else if xs = [] then replicate n zero
      else take n (concat (replicate ((n + length xs - 1) div length xs) xs)))"

fun np_resize :: "ndarray \<Rightarrow> nat \<Rightarrow> ndarray" where
  "np_resize (IntArr xs) n = IntArr (resize_list 0 xs n)"
| "np_resize (FloatArr vs) n = FloatArr (resize_list (Num 0) vs n)"
| "np_resize (Int32Arr xs) n = Int32Arr (resize_list 0 xs n)"

text \<open>\<^verbatim>\<open>a[m:] = 0\<close>.\<close>

fun fill_from :: "ndarray \<Rightarrow> nat \<Rightarrow> ndarray" where
  "fill_from (IntArr xs) m = IntArr (take m xs @ replicate (length xs - m) 0)"
| "fill_from (FloatArr vs) m = FloatArr (take m vs @ replicate (length vs - m) (Num 0))"
| "fill_from (Int32Arr xs) m = Int32Arr (take m xs @ replicate (length xs - m) 0)"

text \<open>
  \<^verbatim>\<open>np.nanmin\<close>, \<^verbatim>\<open>np.nanmax\<close> and \<^verbatim>\<open>np.nanmean\<close> of the elements of an array: the
  first two raise \<^verbatim>\<open>ValueError\<close> on an empty array; all three give \<open>NaN\<close> when every
  element is \<open>NaN\<close> (the \<^verbatim>\<open>All-NaN slice\<close> warning is filtered by the callers). The mean
  adds the elements that are not \<open>NaN\<close> from left to right; NumPy adds the elements of a
  longer array in blocks, so that the last digits of its mean may differ.
\<close>

definition fmin :: "fval \<Rightarrow> fval \<Rightarrow> fval" where
  "fmin a b = (if fle a b then a else b)"

definition fmax :: "fval \<Rightarrow> fval \<Rightarrow> fval" where
  "fmax a b = (if fle a b then b else a)"

definition not_nan :: "fval list \<Rightarrow> fval list" where
  "not_nan vs = filter (\<lambda>v. \<not> isnan v) vs"

definition np_nanmin :: "fval list \<Rightarrow> py_error + fval" where
  "np_nanmin vs =
     (if vs = [] then Inl ValueError
      else case not_nan vs of [] \<Rightarrow> Inr NaN | q # qs \<Rightarrow> Inr (fold fmin qs q))"

definition np_nanmax :: "fval list \<Rightarrow> py_error + fval" where
  "np_nanmax vs =
     (if vs = [] then Inl ValueError
      else case not_nan vs of [] \<Rightarrow> Inr NaN | q # qs \<Rightarrow> Inr (fold fmax qs q))"

definition np_nanmean :: "fval list \<Rightarrow> fval" where
  "np_nanmean vs =
     (case not_nan vs of
        [] \<Rightarrow> NaN
      | q # qs \<Rightarrow> fdiv (fold (\<lambda>v s. fadd s v) (q # qs) (Num 0)) (Num (of_nat (length (q # qs)))))"

text \<open>
  Storing a float into an integer array truncates it towards zero. (A \<open>NaN\<close> or an
  infinity would be stored as the least 64-bit integer; the minimum of an integer array is
  neither, so the setters below do not reach that case.)
\<close>

fun to_int :: "fval \<Rightarrow> int" where
  "to_int (Num q) = (if 0 \<le> q then \<lfloor>q\<rfloor> else \<lceil>q\<rceil>)"
| "to_int v = - (2 ^ 63)"

text \<open>\<^verbatim>\<open>a[a <= 0] = v\<close>, in place.\<close>

fun assign_nonpositive :: "ndarray \<Rightarrow> fval \<Rightarrow> ndarray" where
  "assign_nonpositive (IntArr xs) v = IntArr (map (\<lambda>x. if x \<le> 0 then to_int v else x) xs)"
| "assign_nonpositive (FloatArr vs) v = FloatArr (map (\<lambda>x. if fle0 x then v else x) vs)"
| "assign_nonpositive (Int32Arr xs) v = Int32Arr (map (\<lambda>x. if x \<le> 0 then to_int v else x) xs)"

text \<open>The same on a two-dimensional float array.\<close>

definition assign_nonpositive2 :: "fval list list \<Rightarrow> fval \<Rightarrow> fval list list" where
  "assign_nonpositive2 g v = map (map (\<lambda>x. if fle0 x then v else x)) g"

section \<open>Colormaps, normalization and the canvas\<close>

text \<open>
  \<^verbatim>\<open>BiaColormap\<close> (module \<^verbatim>\<open>biaplotter.colormap\<close>) is used through three attributes only:
  \<^verbatim>\<open>categorical\<close>, \<^verbatim>\<open>N\<close> and the wrapped Matplotlib colormap \<^verbatim>\<open>cmap\<close>, kept by its name.
\<close>

datatype bia_colormap = BiaColormap (categorical: bool) (cmap_N: nat) (cmap: string)

datatype norm_class = NormalizeClass | LogNormClass | SymLogNormClass | CenteredNormClass

text \<open>The dictionary \<^verbatim>\<open>_normalization_methods\<close> of both artists.\<close>

definition normalization_methods :: "string \<Rightarrow> norm_class option" where
  "normalization_methods =
     map_of [(''linear'', NormalizeClass), (''log'', LogNormClass),
             (''symlog'', SymLogNormClass), (''centered'', CenteredNormClass)]"

text \<open>
  A normalization object is the class together with the keyword arguments it was built
  with: \<^verbatim>\<open>cls(vmin, vmax)\<close>, \<^verbatim>\<open>cls(vcenter)\<close> or \<^verbatim>\<open>cls(vmin, vmax, linthresh)\<close>.
\<close>

datatype norm =
    NormBounds norm_class fval fval
  | NormCenter norm_class fval
  | NormSymlog norm_class fval fval rat

text \<open>
  The colours themselves are computed inside Matplotlib. The model keeps what determines
  them: the normalization, the colormap's name and the values that are mapped. A call into
  Matplotlib is a step that succeeds: the exceptions of the artists' own code are modelled
  (\<^verbatim>\<open>len(None)\<close>, a missing attribute or key, an index out of range, a reduction of an
  empty array), the ones Matplotlib may raise on the arguments it is given are not. Every
  run of the code that returns is therefore a run of the model that returns.
\<close>

datatype point_colors = ToRgba norm string ndarray

datatype rgba_image = RgbaImage norm string "fval list list"

text \<open>What \<^verbatim>\<open>ax.imshow(rgba, extent, zorder, interpolation, alpha)\<close> draws.\<close>

datatype image =
  AxesImage (image_rgba: rgba_image) (extent: "rat list") (zorder: nat)
    (interpolation: string) (alpha: rat)

datatype warning =
    IndicesMustBeIntegers
  | CategoricalForcesLinear
  | LogNormalizationApplied fval

text \<open>
  The effects of a setter, in the order the code performs them: a signal emitted, a warning
  issued, an image removed from or drawn on the axes, a redraw requested.
\<close>

datatype event =
    DataChanged "(rat \<times> rat) list"
  | ColorIndicesChanged "ndarray option"
  | Warn warning
  | ImageRemove image
  | Imshow image
  | DrawIdle

text \<open>
  A method returns, or raises with the object in the state it had reached: an exception
  does not undo the assignments made before it.
\<close>

datatype ('a, 's) outcome = Returned 'a 's | Raised py_error 's

definition next_do :: "('a, 's) outcome \<Rightarrow> ('a \<Rightarrow> 's \<Rightarrow> ('b, 's) outcome) \<Rightarrow> ('b, 's) outcome" where
  "next_do m f = (case m of Returned v s \<Rightarrow> f v s | Raised e s \<Rightarrow> Raised e s)"

fun returned :: "('a, 's) outcome \<Rightarrow> bool" where
  "returned (Returned v s) = True"
| "returned (Raised e s) = False"

fun final_state :: "('a, 's) outcome \<Rightarrow> 's" where
  "final_state (Returned v s) = s"
| "final_state (Raised e s) = s"

text \<open>\<^verbatim>\<open>np.isscalar(indices)\<close> and \<^verbatim>\<open>np.full(len(self._data), indices)\<close>: \<^verbatim>\<open>len(None)\<close> raises.\<close>

fun broadcast_indices :: "indices_value \<Rightarrow> 'p list option \<Rightarrow> py_error + ndarray option" where
  "broadcast_indices NoneValue data = Inr None"
| "broadcast_indices (Array a) data = Inr (Some a)"
| "broadcast_indices (Scalar v) None = Inl TypeError"
| "broadcast_indices (Scalar v) (Some d) = Inr (Some (np_full (length d) v))"

text \<open>
  The resize of the data setters: \<^verbatim>\<open>np.resize(self._color_indices, self._data.shape[0])\<close>,
  then zeros from the old length on when the result is longer.
\<close>

definition resize_color_indices :: "ndarray \<Rightarrow> nat \<Rightarrow> ndarray" where
  "resize_color_indices old n =
     (let color_indices_size = len old;
          color_indices = np_resize old n
      in if len color_indices > color_indices_size
         then fill_from color_indices color_indices_size
         else color_indices)"

section \<open>The scatter artist\<close>

datatype size_value = SizeScalar rat | SizeArray "rat list"

text \<open>The Matplotlib collection behind \<^verbatim>\<open>self._scatter\<close>.\<close>

record path_collection =
  pc_offsets :: "(rat \<times> rat) list"
  pc_sizes :: "rat list"
  pc_facecolor :: "point_colors option"

text \<open>
  The attributes of a \<^verbatim>\<open>Scatter\<close>. \<open>s_size\<close> is \<open>None\<close> while the attribute \<^verbatim>\<open>_size\<close> does
  not exist yet; \<open>s_events\<close> is the log of its effects.
\<close>

record Scatter =
  s_data :: "(rat \<times> rat) list option"
  s_visible :: bool
  s_overlay_colormap :: bia_colormap
  s_color_indices :: "ndarray option"
  s_scatter :: "path_collection option"
  s_color_normalization_method :: string
  s_size :: "size_value option"
  s_events :: "event list"

definition s_emit :: "event \<Rightarrow> Scatter \<Rightarrow> Scatter" where
  "s_emit e s = s\<lparr>s_events := s_events s @ [e]\<rparr>"

definition Scatter_draw :: "Scatter \<Rightarrow> (unit, Scatter) outcome" where
  "Scatter_draw s = Returned () (s_emit DrawIdle s)"

text \<open>
  The choice of the normalization in \<^verbatim>\<open>Scatter.color_indices\<close> (the \<^verbatim>\<open>if\<close> on
  \<^verbatim>\<open>self.overlay_colormap.categorical\<close>). It returns the normalization and the indices
  array, which the \<^verbatim>\<open>log\<close> branch changes in place; that array is \<^verbatim>\<open>self._color_indices\<close>.
\<close>

definition Scatter_norm :: "ndarray \<Rightarrow> norm_class \<Rightarrow> Scatter \<Rightarrow> (norm \<times> ndarray, Scatter) outcome" where
  "Scatter_norm indices norm_cls s =
     (if categorical (s_overlay_colormap s) then
        (let s1 = (if \<not> dtype_is_int indices then s_emit (Warn IndicesMustBeIntegers) s else s);
             s2 = (if s_color_normalization_method s1 \<noteq> ''linear''
                   then (s_emit (Warn CategoricalForcesLinear) s1)
                          \<lparr>s_color_normalization_method := ''linear''\<rparr>
                   else s1)
         in Returned
              (NormBounds NormalizeClass (Num 0) (Num (of_nat (cmap_N (s_overlay_colormap s2)))),
               indices) s2)
      else if s_color_normalization_method s = ''log'' then
        (case np_nanmin (as_floats indices) of
           Inl e \<Rightarrow> Raised e s
         | Inr mn \<Rightarrow>
             (let min_value = (if fle0 mn then Num (1 / 100) else mn) in
              (case np_nanmax (as_floats indices) of
                 Inl e \<Rightarrow> Raised e s
               | Inr mx \<Rightarrow>
                   (let s1 = s_emit (Warn (LogNormalizationApplied min_value)) s;
                        indices1 = assign_nonpositive indices min_value
                    in Returned (NormBounds norm_cls min_value mx, indices1)
                         (s1\<lparr>s_color_indices := Some indices1\<rparr>)))))
      else if s_color_normalization_method s = ''centered'' then
        Returned (NormCenter norm_cls (np_nanmean (as_floats indices)), indices) s
      else if s_color_normalization_method s = ''symlog'' then
        (case np_nanmin (as_floats indices) of
           Inl e \<Rightarrow> Raised e s
         | Inr mn \<Rightarrow>
             (case np_nanmax (as_floats indices) of
                Inl e \<Rightarrow> Raised e s
              | Inr mx \<Rightarrow> Returned (NormSymlog norm_cls mn mx (3 / 100), indices) s))
      else
        (case np_nanmin (as_floats indices) of
           Inl e \<Rightarrow> Raised e s
         | Inr mn \<Rightarrow>
             (case np_nanmax (as_floats indices) of
                Inl e \<Rightarrow> Raised e s
              | Inr mx \<Rightarrow> Returned (NormBounds norm_cls mn mx, indices) s)))"

text \<open>
  The block under \<^verbatim>\<open>if indices is not None and self._scatter is not None\<close>: the class is
  looked up in \<^verbatim>\<open>_normalization_methods\<close> (\<^verbatim>\<open>KeyError\<close> on an unknown method), the
  normalization chosen, and the colours set on the collection.
\<close>

definition Scatter_recolor :: "Scatter \<Rightarrow> (unit, Scatter) outcome" where
  "Scatter_recolor s =
     (case s_color_indices s of
        None \<Rightarrow> Returned () s
      | Some indices \<Rightarrow>
          (case s_scatter s of
             None \<Rightarrow> Returned () s
           | Some sc \<Rightarrow>
               (case normalization_methods (s_color_normalization_method s) of
                  None \<Rightarrow> Raised KeyError s
                | Some norm_cls \<Rightarrow>
                    next_do (Scatter_norm indices norm_cls s) (\<lambda>(norm, indices1) s1.
                      Returned ()
                        (s1\<lparr>s_scatter := Some (sc\<lparr>pc_facecolor :=
                              Some (ToRgba norm (cmap (s_overlay_colormap s1)) indices1)\<rparr>)\<rparr>)))))"

text \<open>The setter of \<^verbatim>\<open>Scatter.color_indices\<close>.\<close>

definition Scatter_color_indices_setter :: "indices_value \<Rightarrow> Scatter \<Rightarrow> (unit, Scatter) outcome" where
  "Scatter_color_indices_setter indices s =
     (case broadcast_indices indices (s_data s) of
        Inl e \<Rightarrow> Raised e s
      | Inr ind \<Rightarrow>
          next_do (Scatter_recolor (s\<lparr>s_color_indices := ind\<rparr>)) (\<lambda>_ s1.
            Scatter_draw (s_emit (ColorIndicesChanged (s_color_indices s1)) s1)))"

text \<open>
  The setter of \<^verbatim>\<open>Scatter.color_normalization_method\<close>: it stores the method and assigns
  \<^verbatim>\<open>self._color_indices\<close> to \<^verbatim>\<open>self.color_indices\<close> again.
\<close>

definition as_indices_value :: "ndarray option \<Rightarrow> indices_value" where
  "as_indices_value a = (case a of None \<Rightarrow> NoneValue | Some arr \<Rightarrow> Array arr)"

definition Scatter_color_normalization_method_setter ::
  "string \<Rightarrow> Scatter \<Rightarrow> (unit, Scatter) outcome" where
  "Scatter_color_normalization_method_setter v s =
     Scatter_color_indices_setter (as_indices_value (s_color_indices s))
       (s\<lparr>s_color_normalization_method := v\<rparr>)"

text \<open>The setter of \<^verbatim>\<open>Scatter.size\<close>.\<close>

definition Scatter_size_setter :: "size_value \<Rightarrow> Scatter \<Rightarrow> (unit, Scatter) outcome" where
  "Scatter_size_setter v s =
     (let s1 = s\<lparr>s_size := Some v\<rparr> in
      case s_scatter s1 of
        None \<Rightarrow> Scatter_draw s1
      | Some sc \<Rightarrow>
          (case v of
             SizeArray a \<Rightarrow> Scatter_draw (s1\<lparr>s_scatter := Some (sc\<lparr>pc_sizes := a\<rparr>)\<rparr>)
           | SizeScalar x \<Rightarrow>
               (case s_data s1 of
                  None \<Rightarrow> Raised TypeError s1
                | Some d \<Rightarrow>
                    Scatter_draw (s1\<lparr>s_scatter := Some (sc\<lparr>pc_sizes := replicate (length d) x\<rparr>)\<rparr>))))"

text \<open>
  \<^verbatim>\<open>self.ax.scatter(value[:, 0], value[:, 1], s=self._size)\<close>: reading \<^verbatim>\<open>self._size\<close>
  raises \<^verbatim>\<open>AttributeError\<close> while the attribute does not exist.
\<close>

definition ax_scatter :: "(rat \<times> rat) list \<Rightarrow> size_value \<Rightarrow> path_collection" where
  "ax_scatter v sz =
     \<lparr>pc_offsets = v,
      pc_sizes = (case sz of SizeScalar x \<Rightarrow> replicate (length v) x | SizeArray a \<Rightarrow> a),
      pc_facecolor = None\<rparr>"

text \<open>
  The end of both data setters: \<^verbatim>\<open>self.color_indices = 0\<close> when there are no color
  indices yet, else the old ones resized to the \<open>n\<close> points of the new data.
\<close>

definition Scatter_update_color_indices :: "nat \<Rightarrow> Scatter \<Rightarrow> (unit, Scatter) outcome" where
  "Scatter_update_color_indices n s =
     (case s_color_indices s of
        None \<Rightarrow> Scatter_color_indices_setter (Scalar (PyInt 0)) s
      | Some old \<Rightarrow> Scatter_color_indices_setter (Array (resize_color_indices old n)) s)"

text \<open>The setter of \<^verbatim>\<open>Scatter.data\<close>.\<close>

definition Scatter_data_setter :: "(rat \<times> rat) list option \<Rightarrow> Scatter \<Rightarrow> (unit, Scatter) outcome" where
  "Scatter_data_setter v s =
     (case v of
        None \<Rightarrow> Returned () s
      | Some d \<Rightarrow>
          if length d = 0 then Returned () s
          else
            (let s1 = s_emit (DataChanged d) (s\<lparr>s_data := Some d\<rparr>) in
             next_do
               (case s_scatter s1 of
                  None \<Rightarrow>
                    (case s_size s1 of
                       None \<Rightarrow> Raised AttributeError s1
                     | Some sz \<Rightarrow>
                         Scatter_color_indices_setter (Scalar (PyInt 0))
                           (s1\<lparr>s_scatter := Some (ax_scatter d sz)\<rparr>))
                | Some sc \<Rightarrow> Returned () (s1\<lparr>s_scatter := Some (sc\<lparr>pc_offsets := d\<rparr>)\<rparr>))
               (\<lambda>_ s2.
                  next_do (Scatter_update_color_indices (length d) s2)
                    (\<lambda>_ s3.
                       next_do (Scatter_size_setter (SizeScalar 50) s3) (\<lambda>_. Scatter_draw)))))"

text \<open>
  \<^verbatim>\<open>Scatter.__init__\<close>: the base class stores its arguments, then \<^verbatim>\<open>self.data = data\<close>
  runs before \<^verbatim>\<open>self._size = 50\<close>.
\<close>

definition Scatter_init ::
  "(rat \<times> rat) list option \<Rightarrow> bia_colormap \<Rightarrow> ndarray option \<Rightarrow> (unit, Scatter) outcome" where
  "Scatter_init data overlay_colormap color_indices =
     next_do
       (Scatter_data_setter data
          \<lparr>s_data = data, s_visible = True, s_overlay_colormap = overlay_colormap,
           s_color_indices = color_indices, s_scatter = None,
           s_color_normalization_method = ''linear'', s_size = None, s_events = []\<rparr>)
       (\<lambda>_ s. Scatter_draw (s\<lparr>s_size := Some (SizeScalar 50)\<rparr>))"

section \<open>NumPy's histogram2d and digitize\<close>

text \<open>
  \<^verbatim>\<open>np.histogram2d(x, y, bins=n)\<close> for an integer \<open>n\<close>, in exact arithmetic. Each axis
  spans the minimum to the maximum of its coordinates (widened by one half on each side
  when they are equal), cut by \<^verbatim>\<open>linspace\<close> into \<open>n\<close> bins. A value is counted in the bin
  whose half-open interval holds it, and a value on the last edge in the last bin.
\<close>

definition outer_edges :: "rat list \<Rightarrow> rat \<times> rat" where
  "outer_edges a =
     (if a = [] then (0, 1)
      else let first_edge = Min (set a); last_edge = Max (set a) in
        if first_edge = last_edge then (first_edge - 1 / 2, last_edge + 1 / 2)
        else (first_edge, last_edge))"

definition linspace :: "rat \<Rightarrow> rat \<Rightarrow> nat \<Rightarrow> rat list" where
  "linspace start stop n = map (\<lambda>i. start + of_nat i * ((stop - start) / of_nat n)) [0..<n + 1]"

text \<open>\<^verbatim>\<open>np.searchsorted(edges, v, side='right')\<close> on increasing edges.\<close>

definition searchsorted_right :: "rat list \<Rightarrow> rat \<Rightarrow> nat" where
  "searchsorted_right edges v = length (filter (\<lambda>e. e \<le> v) edges)"

definition bin_number :: "rat list \<Rightarrow> rat \<Rightarrow> nat" where
  "bin_number edges v =
     (if v = last edges then searchsorted_right edges v - 1 else searchsorted_right edges v)"

definition np_histogram2d ::
  "(rat \<times> rat) list \<Rightarrow> nat \<Rightarrow> py_error + (fval list list \<times> rat list \<times> rat list)" where
  "np_histogram2d sample n =
     (if n = 0 then Inl ValueError
      else
        let x_edges = (case outer_edges (map fst sample) of (lo, hi) \<Rightarrow> linspace lo hi n);
            y_edges = (case outer_edges (map snd sample) of (lo, hi) \<Rightarrow> linspace lo hi n);
            counts =
              map (\<lambda>i. map (\<lambda>j.
                     Num (of_nat (length (filter
                       (\<lambda>(x, y). bin_number x_edges x = i + 1 \<and> bin_number y_edges y = j + 1)
                       sample))))
                     [0..<n])
                  [0..<n]
        in Inr (counts, x_edges, y_edges))"

text \<open>
  \<^verbatim>\<open>np.digitize(x, bins, right=False)\<close>: for increasing bins the number of edges \<open>\<le> v\<close>, for
  decreasing bins the number of edges \<open>> v\<close>; \<^verbatim>\<open>ValueError\<close> when the bins are neither.
\<close>

definition np_digitize :: "rat list \<Rightarrow> rat list \<Rightarrow> py_error + int list" where
  "np_digitize x bins =
     (if sorted bins then Inr (map (\<lambda>v. int (searchsorted_right bins v)) x)
      else if sorted (rev bins) then
        Inr (map (\<lambda>v. int (length bins) - int (length (filter (\<lambda>e. e \<le> v) bins))) x)
      else Inl ValueError)"

text \<open>\<^verbatim>\<open>(np.digitize(coords, edges, right=False) - 1).clip(0, len(edges) - 2)\<close>.\<close>

definition bin_indices :: "rat list \<Rightarrow> rat list \<Rightarrow> py_error + int list" where
  "bin_indices coords edges =
     and_then (np_digitize coords edges) (\<lambda>ds.
       Inr (map (\<lambda>d. min (max (d - 1) 0) (int (length edges) - 2)) ds))"

text \<open>\<open>a[i]\<close> on a one-dimensional array.\<close>

definition getitem1 :: "'a list \<Rightarrow> int \<Rightarrow> py_error + 'a" where
  "getitem1 a i = (case norm_index (length a) i of None \<Rightarrow> Inl IndexError | Some k \<Rightarrow> Inr (a ! k))"

text \<open>\<^verbatim>\<open>[x_edges[0], x_edges[-1], y_edges[0], y_edges[-1]]\<close>.\<close>

definition image_extent :: "rat list \<Rightarrow> rat list \<Rightarrow> py_error + rat list" where
  "image_extent x_edges y_edges =
     and_then (getitem1 x_edges 0) (\<lambda>x0.
     and_then (getitem1 x_edges (- 1)) (\<lambda>x1.
     and_then (getitem1 y_edges 0) (\<lambda>y0.
     and_then (getitem1 y_edges (- 1)) (\<lambda>y1. Inr [x0, x1, y0, y1]))))"

section \<open>The 2D histogram artist\<close>

text \<open>
  The attributes of a \<^verbatim>\<open>Histogram2D\<close>. \<open>h_histogram\<close> is \<open>None\<close> while the attribute
  \<^verbatim>\<open>_histogram\<close> does not exist yet (it is first assigned by the data setter).
\<close>

record Histogram2D =
  h_data :: "(rat \<times> rat) list option"
  h_visible :: bool
  h_overlay_colormap :: bia_colormap
  h_color_indices :: "ndarray option"
  h_histogram_image :: "image option"
  h_bins :: nat
  h_histogram_colormap :: bia_colormap
  h_histogram_interpolation :: string
  h_overlay_interpolation :: string
  h_overlay_opacity :: rat
  h_overlay_visible :: bool
  h_overlay_histogram_image :: "image option"
  h_histogram_color_normalization_method :: string
  h_overlay_color_normalization_method :: string
  h_histogram :: "(fval list list \<times> rat list \<times> rat list) option"
  h_histogram_rgba :: "rgba_image option"
  h_overlay_histogram_rgba :: "rgba_image option"
  h_events :: "event list"

definition h_emit :: "event \<Rightarrow> Histogram2D \<Rightarrow> Histogram2D" where
  "h_emit e s = s\<lparr>h_events := h_events s @ [e]\<rparr>"

definition Histogram2D_draw :: "Histogram2D \<Rightarrow> (unit, Histogram2D) outcome" where
  "Histogram2D_draw s = Returned () (h_emit DrawIdle s)"

definition color_normalization_method :: "bool \<Rightarrow> Histogram2D \<Rightarrow> string" where
  "color_normalization_method is_overlay s =
     (if is_overlay then h_overlay_color_normalization_method s
      else h_histogram_color_normalization_method s)"

text \<open>\<^verbatim>\<open>Histogram2D._handle_norm_method_for_categorical_colormap\<close>.\<close>

definition handle_norm_method_for_categorical_colormap ::
  "bool \<Rightarrow> bia_colormap \<Rightarrow> bool \<Rightarrow> Histogram2D \<Rightarrow> (norm, Histogram2D) outcome" where
  "handle_norm_method_for_categorical_colormap is_overlay colormap dtype_int s =
     (let method = color_normalization_method is_overlay s;
          s1 = (if \<not> dtype_int then h_emit (Warn IndicesMustBeIntegers) s else s);
          s2 = (if method \<noteq> ''linear'' then
                  (let s' = h_emit (Warn CategoricalForcesLinear) s1 in
                   if is_overlay then s'\<lparr>h_overlay_color_normalization_method := ''linear''\<rparr>
                   else s'\<lparr>h_histogram_color_normalization_method := ''linear''\<rparr>)
                else s1)
      in Returned (NormBounds NormalizeClass (Num 0) (Num (of_nat (cmap_N colormap)))) s2)"

text \<open>
  \<^verbatim>\<open>Histogram2D._handle_norm_method_for_continuous_colormap\<close>. The \<^verbatim>\<open>log\<close> branch changes
  \<^verbatim>\<open>histogram_data\<close> in place, so the array is returned with the normalization.
\<close>

definition handle_norm_method_for_continuous_colormap ::
  "bool \<Rightarrow> norm_class \<Rightarrow> fval list list \<Rightarrow> rat \<Rightarrow> rat \<Rightarrow> Histogram2D
     \<Rightarrow> (norm \<times> fval list list, Histogram2D) outcome" where
  "handle_norm_method_for_continuous_colormap is_overlay norm_cls histogram_data
       lintresh_for_symlog min_value_for_log s =
     (let method = color_normalization_method is_overlay s in
      if method = ''log'' then
        (case np_nanmin (concat histogram_data) of
           Inl e \<Rightarrow> Raised e s
         | Inr mn \<Rightarrow>
             (let min_value = (if fle0 mn then Num min_value_for_log else mn) in
              (case np_nanmax (concat histogram_data) of
                 Inl e \<Rightarrow> Raised e s
               | Inr mx \<Rightarrow>
                   Returned (NormBounds norm_cls min_value mx,
                             assign_nonpositive2 histogram_data min_value)
                     (h_emit (Warn (LogNormalizationApplied min_value)) s))))
      else if method = ''centered'' then
        Returned (NormCenter norm_cls (np_nanmean (concat histogram_data)), histogram_data) s
      else if method = ''symlog'' then
        (case np_nanmin (concat histogram_data) of
           Inl e \<Rightarrow> Raised e s
         | Inr mn \<Rightarrow>
             (case np_nanmax (concat histogram_data) of
                Inl e \<Rightarrow> Raised e s
              | Inr mx \<Rightarrow>
                  Returned (NormSymlog norm_cls mn mx lintresh_for_symlog, histogram_data) s))
      else
        (case np_nanmin (concat histogram_data) of
           Inl e \<Rightarrow> Raised e s
         | Inr mn \<Rightarrow>
             (case np_nanmax (concat histogram_data) of
                Inl e \<Rightarrow> Raised e s
              | Inr mx \<Rightarrow> Returned (NormBounds norm_cls mn mx, histogram_data) s)))"

text \<open>
  \<^verbatim>\<open>Histogram2D._select_norm_class\<close>, with \<^verbatim>\<open>_get_normalization_class\<close> and
  \<^verbatim>\<open>_is_categorical_colormap\<close> (a \<^verbatim>\<open>BiaColormap\<close> always has the attribute). For the
  overlay the dtype is read from \<^verbatim>\<open>self._color_indices\<close>, which must not be \<^verbatim>\<open>None\<close>.
\<close>

definition select_norm_class ::
  "bool \<Rightarrow> fval list list \<Rightarrow> Histogram2D \<Rightarrow> (norm \<times> fval list list, Histogram2D) outcome" where
  "select_norm_class is_overlay histogram_data s =
     (case (if is_overlay
            then (case h_color_indices s of
                    None \<Rightarrow> Inl AttributeError
                  | Some a \<Rightarrow> Inr (h_overlay_colormap s, dtype_is_int a))
            else Inr (h_histogram_colormap s, False)) of
        Inl e \<Rightarrow> Raised e s
      | Inr (colormap, dtype_int) \<Rightarrow>
          (case normalization_methods (color_normalization_method is_overlay s) of
             None \<Rightarrow> Raised KeyError s
           | Some norm_cls \<Rightarrow>
               if categorical colormap then
                 next_do (handle_norm_method_for_categorical_colormap is_overlay colormap dtype_int s)
                   (\<lambda>norm. Returned (norm, histogram_data))
               else
                 handle_norm_method_for_continuous_colormap is_overlay norm_cls histogram_data
                   (3 / 100) (1 / 100) s))"

text \<open>
  \<^verbatim>\<open>Histogram2D._histogram2D_array_to_rgba\<close>. The \<^verbatim>\<open>QuadMesh\<close> it draws is removed again
  before it returns; the image is the transposed array under the chosen normalization and
  colormap. The array it was given is returned as the normalization step left it.
\<close>

definition histogram2D_array_to_rgba ::
  "fval list list \<Rightarrow> rat list \<Rightarrow> rat list \<Rightarrow> bool \<Rightarrow> Histogram2D
     \<Rightarrow> (rgba_image \<times> fval list list, Histogram2D) outcome" where
  "histogram2D_array_to_rgba histogram_data x_edges y_edges is_overlay s =
     next_do (select_norm_class is_overlay histogram_data s) (\<lambda>(norm, histogram_data1) s1.
       Returned
         (RgbaImage norm
            (if is_overlay then cmap (h_overlay_colormap s1) else cmap (h_histogram_colormap s1))
            (transpose histogram_data1),
          histogram_data1) s1)"

text \<open>
  The statistic of the overlay. With \<^verbatim>\<open>indices = None\<close> the call reaches
  \<^verbatim>\<open>zip(x_indices, y_indices, None)\<close>, a \<^verbatim>\<open>TypeError\<close>, after the grid was allocated.
\<close>

definition overlay_statistic :: "int list \<Rightarrow> int list \<Rightarrow> ndarray option \<Rightarrow> py_error + fval list list" where
  "overlay_statistic x_bin_indices y_bin_indices indices =
     (case indices of
        Some a \<Rightarrow> calculate_statistic_histogram x_bin_indices y_bin_indices (as_floats a) ''median''
      | None \<Rightarrow>
          and_then (py_max x_bin_indices) (\<lambda>mx.
          and_then (py_max y_bin_indices) (\<lambda>my.
          and_then (np_full2 (mx + 1) (my + 1) NaN) (\<lambda>_. Inl TypeError))))"

text \<open>
  The part of the \<^verbatim>\<open>color_indices\<close> setter after the old overlay was removed: the bin of
  every point, the median of the indices per bin, and the new overlay image unless the
  statistic is \<open>NaN\<close> everywhere.
\<close>

definition draw_overlay :: "Histogram2D \<Rightarrow> (unit, Histogram2D) outcome" where
  "draw_overlay s =
     (case h_histogram s of
        None \<Rightarrow> Raised AttributeError s
      | Some (counts, x_edges, y_edges) \<Rightarrow>
          (case h_data s of
             None \<Rightarrow> Raised TypeError s
           | Some d \<Rightarrow>
               (case and_then (bin_indices (map fst d) x_edges) (\<lambda>x_bin_indices.
                     and_then (bin_indices (map snd d) y_edges) (\<lambda>y_bin_indices.
                       overlay_statistic x_bin_indices y_bin_indices (h_color_indices s))) of
                  Inl e \<Rightarrow> Raised e s
                | Inr statistic_histogram \<Rightarrow>
                    if list_all (list_all isnan) statistic_histogram then Returned () s
                    else
                      next_do (histogram2D_array_to_rgba statistic_histogram x_edges y_edges True s)
                        (\<lambda>(rgba, _) s1.
                           (let s2 = s1\<lparr>h_overlay_histogram_rgba := Some rgba\<rparr> in
                            case image_extent x_edges y_edges of
                              Inl e \<Rightarrow> Raised e s2
                            | Inr ext \<Rightarrow>
                                (let im = AxesImage rgba ext 2 (h_overlay_interpolation s2)
                                            (h_overlay_opacity s2)
                                 in Returned ()
                                      (h_emit (Imshow im)
                                         (s2\<lparr>h_overlay_histogram_image := Some im\<rparr>))))))))"

text \<open>The setter of \<^verbatim>\<open>Histogram2D.color_indices\<close>.\<close>

definition Histogram2D_color_indices_setter ::
  "indices_value \<Rightarrow> Histogram2D \<Rightarrow> (unit, Histogram2D) outcome" where
  "Histogram2D_color_indices_setter indices s =
     (case broadcast_indices indices (h_data s) of
        Inl e \<Rightarrow> Raised e s
      | Inr ind \<Rightarrow>
          (let s1 = s\<lparr>h_color_indices := ind\<rparr>;
               s2 = (case h_overlay_histogram_image s1 of
                       None \<Rightarrow> s1
                     | Some im \<Rightarrow> (h_emit (ImageRemove im) s1)\<lparr>h_overlay_histogram_image := None\<rparr>)
           in next_do (draw_overlay s2) (\<lambda>_ s3.
                Histogram2D_draw (h_emit (ColorIndicesChanged (h_color_indices s3)) s3))))"

definition Histogram2D_update_color_indices ::
  "nat \<Rightarrow> Histogram2D \<Rightarrow> (unit, Histogram2D) outcome" where
  "Histogram2D_update_color_indices n s =
     (case h_color_indices s of
        None \<Rightarrow> Histogram2D_color_indices_setter (Scalar (PyInt 0)) s
      | Some old \<Rightarrow> Histogram2D_color_indices_setter (Array (resize_color_indices old n)) s)"

text \<open>The setter of \<^verbatim>\<open>Histogram2D.data\<close>.\<close>

definition Histogram2D_data_setter ::
  "(rat \<times> rat) list option \<Rightarrow> Histogram2D \<Rightarrow> (unit, Histogram2D) outcome" where
  "Histogram2D_data_setter v s =
     (case v of
        None \<Rightarrow> Returned () s
      | Some d \<Rightarrow>
          if length d = 0 then Returned () s
          else
            (let s1 = h_emit (DataChanged d) (s\<lparr>h_data := Some d\<rparr>);
                 s2 = (case h_histogram_image s1 of
                         None \<Rightarrow> s1
                       | Some im \<Rightarrow> h_emit (ImageRemove im) s1)
             in case np_histogram2d d (h_bins s2) of
                  Inl e \<Rightarrow> Raised e s2
                | Inr (counts, x_edges, y_edges) \<Rightarrow>
                    next_do
                      (histogram2D_array_to_rgba counts x_edges y_edges False
                         (s2\<lparr>h_histogram := Some (counts, x_edges, y_edges)\<rparr>))
                      (\<lambda>(rgba, counts1) s3.
                         (let s4 = s3\<lparr>h_histogram := Some (counts1, x_edges, y_edges),
                                       h_histogram_rgba := Some rgba\<rparr>
                          in case image_extent x_edges y_edges of
                               Inl e \<Rightarrow> Raised e s4
                             | Inr ext \<Rightarrow>
                                 (let im = AxesImage rgba ext 1 (h_histogram_interpolation s4) 1;
                                      s5 = h_emit (Imshow im) (s4\<lparr>h_histogram_image := Some im\<rparr>)
                                  in next_do (Histogram2D_update_color_indices (length d) s5)
                                       (\<lambda>_. Histogram2D_draw))))))"

text \<open>\<^verbatim>\<open>Histogram2D.__init__\<close>.\<close>

definition Histogram2D_init ::
  "(rat \<times> rat) list option \<Rightarrow> bia_colormap \<Rightarrow> ndarray option \<Rightarrow> nat \<Rightarrow> bia_colormap
     \<Rightarrow> (unit, Histogram2D) outcome" where
  "Histogram2D_init data overlay_colormap color_indices bins histogram_colormap =
     next_do
       (Histogram2D_data_setter data
          \<lparr>h_data = data, h_visible = True, h_overlay_colormap = overlay_colormap,
           h_color_indices = color_indices, h_histogram_image = None, h_bins = bins,
           h_histogram_colormap = histogram_colormap, h_histogram_interpolation = ''nearest'',
           h_overlay_interpolation = ''nearest'', h_overlay_opacity = 1, h_overlay_visible = True,
           h_overlay_histogram_image = None,
           h_histogram_color_normalization_method = ''linear'',
           h_overlay_color_normalization_method = ''linear'', h_histogram = None,
           h_histogram_rgba = None, h_overlay_histogram_rgba = None, h_events = []\<rparr>)
       (\<lambda>_. Histogram2D_draw)"

section \<open>Recovering the points of the bins above a threshold\<close>

text \<open>\<^verbatim>\<open>np.argwhere(histogram > threshold)\<close>: the index pairs in row-major order.\<close>

definition argwhere_gt :: "fval list list \<Rightarrow> int \<Rightarrow> (int \<times> int) list" where
  "argwhere_gt histogram threshold =
     concat (map (\<lambda>(i, row).
               map (\<lambda>(j, v). (int i, int j))
                 (filter (\<lambda>(j, v). fgt v (of_int threshold)) (enumerate 0 row)))
             (enumerate 0 histogram))"

text \<open>
  \<^verbatim>\<open>np.where((x >= x_min) & (x < x_max) & (y >= y_min) & (y < y_max))[0]\<close>: the positions
  of the points inside the half-open rectangle, ascending.
\<close>

definition where_in_bin :: "(rat \<times> rat) list \<Rightarrow> rat \<Rightarrow> rat \<Rightarrow> rat \<Rightarrow> rat \<Rightarrow> nat list" where
  "where_in_bin d x_min x_max y_min y_max =
     filter (\<lambda>k. (case d ! k of (x, y) \<Rightarrow> x \<ge> x_min \<and> x < x_max \<and> y \<ge> y_min \<and> y < y_max))
       [0..<length d]"

text \<open>The loop over the exceeding bins of \<^verbatim>\<open>indices_in_patches_above_threshold\<close>.\<close>

fun patches_loop ::
  "(int \<times> int) list \<Rightarrow> rat list \<Rightarrow> rat list \<Rightarrow> (rat \<times> rat) list option \<Rightarrow> nat list
     \<Rightarrow> py_error + nat list" where
  "patches_loop [] x_edges y_edges data indices = Inr indices"
| "patches_loop ((bin_x, bin_y) # rest) x_edges y_edges data indices =
     and_then (getitem1 x_edges bin_x) (\<lambda>x_min.
     and_then (getitem1 x_edges (bin_x + 1)) (\<lambda>x_max.
     and_then (getitem1 y_edges bin_y) (\<lambda>y_min.
     and_then (getitem1 y_edges (bin_y + 1)) (\<lambda>y_max.
       (case data of
          None \<Rightarrow> Inl TypeError
        | Some d \<Rightarrow>
            patches_loop rest x_edges y_edges data
              (indices @ where_in_bin d x_min x_max y_min y_max))))))"

definition indices_in_patches_above_threshold :: "int \<Rightarrow> Histogram2D \<Rightarrow> py_error + nat list" where
  "indices_in_patches_above_threshold threshold s =
     (case h_histogram s of
        None \<Rightarrow> Inl AttributeError
      | Some (histogram, x_edges, y_edges) \<Rightarrow>
          patches_loop (argwhere_gt histogram threshold) x_edges y_edges (h_data s) [])"

section \<open>The colours Matplotlib gives to the indices\<close>

text \<open>
  \<^verbatim>\<open>ScalarMappable.to_rgba\<close> and the colormap are Matplotlib's. For one value under
  \<^verbatim>\<open>Normalize(vmin, vmax)\<close> and a colormap of \<open>N\<close> colours they compute, in \<^verbatim>\<open>float64\<close>:
  the normalization \<open>(value - vmin) / (vmax - vmin)\<close> (\<open>0\<close> when the bounds are equal,
  \<^verbatim>\<open>ValueError\<close> when \<open>vmin > vmax\<close>), an array of integers being converted to
  \<^verbatim>\<open>float64\<close> first; then, in \<^verbatim>\<open>Colormap.__call__\<close>, the product of the result with \<open>N\<close>,
  where \<open>N\<close> itself becomes \<open>N - 1\<close>, truncated to an integer. That integer is the row of
  the lookup table: the rows \<open>0\<close> to \<open>N - 1\<close> are the colours of the palette, the rows
  \<open>N\<close>, \<open>N + 1\<close> and \<open>N + 2\<close> the colours of the values under the range, over it and
  \<open>NaN\<close>.
\<close>

definition normalize :: "fval \<Rightarrow> fval \<Rightarrow> fval \<Rightarrow> py_error + fval" where
  "normalize vmin vmax v =
     (if to_double vmin = to_double vmax then Inr (Num 0)
      else if fle vmax vmin then Inl ValueError
      else Inr (fdiv (fsub v vmin) (fsub vmax vmin)))"

fun flt0 :: "fval \<Rightarrow> bool" where
  "flt0 (Num q) = (q < 0)"
| "flt0 NInf = True"
| "flt0 _ = False"

definition lookup_row :: "nat \<Rightarrow> fval \<Rightarrow> nat" where
  "lookup_row N x =
     (let xa0 = fmul x (Num (of_nat N));
          xa = (if xa0 = Num (of_nat N) then Num (of_nat N - 1) else xa0)
      in if isnan xa then N + 2
         else if flt0 xa then N
         else if xa = Num (of_nat N) \<or> fgt xa (of_nat N) then N + 1
         else nat (to_int xa))"

text \<open>
  The row of the integer index \<open>i\<close> under the normalization of the categorical branch,
  \<^verbatim>\<open>Normalize(vmin=0, vmax=K)\<close>, in a palette of \<open>K\<close> colours.
\<close>

definition palette_row :: "nat \<Rightarrow> int \<Rightarrow> py_error + nat" where
  "palette_row K i =
     and_then (normalize (Num 0) (Num (of_nat K)) (Num (of_int i))) (\<lambda>x. Inr (lookup_row K x))"

section \<open>Notions used to state the properties\<close>

text \<open>An array has shape \<open>(h, w)\<close>: \<open>h\<close> rows of \<open>w\<close> cells each.\<close>

definition shape_is :: "'a list list \<Rightarrow> nat \<Rightarrow> nat \<Rightarrow> bool" where
  "shape_is g h w = (length g = h \<and> list_all (\<lambda>r. length r = w) g)"

text \<open>The features of the points assigned to cell \<open>(i, j)\<close>, in the order of the loop.\<close>

fun cell_features :: "(int \<times> int \<times> fval) list \<Rightarrow> nat \<Rightarrow> nat \<Rightarrow> fval list" where
  "cell_features [] i j = []"
| "cell_features ((x, y, feature) # rest) i j =
     (if x = int i \<and> y = int j then feature # cell_features rest i j else cell_features rest i j)"

text \<open>What one turn of the \<^verbatim>\<open>'sum'\<close> loop does to the sum of its cell.\<close>

definition sum_step :: "fval \<Rightarrow> fval \<Rightarrow> fval" where
  "sum_step feature s = fadd (if isnan s then Num 0 else s) feature"

text \<open>Every bin index of the list lies in \<open>[0, h) \<times> [0, w)\<close>.\<close>

definition in_grid :: "nat \<Rightarrow> nat \<Rightarrow> (int \<times> int \<times> fval) list \<Rightarrow> bool" where
  "in_grid h w ts = list_all (\<lambda>(x, y, f). 0 \<le> x \<and> x < int h \<and> 0 \<le> y \<and> y < int w) ts"

text \<open>Kinds of events.\<close>

fun is_Warn :: "event \<Rightarrow> bool" where
  "is_Warn (Warn w) = True"
| "is_Warn _ = False"

fun is_ImageRemove :: "event \<Rightarrow> bool" where
  "is_ImageRemove (ImageRemove im) = True"
| "is_ImageRemove _ = False"

fun is_Imshow :: "event \<Rightarrow> bool" where
  "is_Imshow (Imshow im) = True"
| "is_Imshow _ = False"

text \<open>
  The later state of a histogram differs from the earlier one by warnings and by its
  normalization methods only.
\<close>

definition warned :: "Histogram2D \<Rightarrow> Histogram2D \<Rightarrow> bool" where
  "warned s s' =
     (h_data s' = h_data s \<and> h_color_indices s' = h_color_indices s
      \<and> h_overlay_colormap s' = h_overlay_colormap s
      \<and> h_histogram_colormap s' = h_histogram_colormap s
      \<and> h_histogram_image s' = h_histogram_image s
      \<and> h_overlay_histogram_image s' = h_overlay_histogram_image s
      \<and> h_histogram s' = h_histogram s
      \<and> h_overlay_interpolation s' = h_overlay_interpolation s
      \<and> h_overlay_opacity s' = h_overlay_opacity s
      \<and> (\<exists>ws. h_events s' = h_events s @ ws \<and> list_all is_Warn ws))"

text \<open>
  The scatter has drawn its points and colours them through the \<^verbatim>\<open>log\<close> branch: a
  continuous colormap with the method \<^verbatim>\<open>'log'\<close>.
\<close>

definition scatter_clamps :: "Scatter \<Rightarrow> bool" where
  "scatter_clamps s =
     (s_scatter s \<noteq> None \<and> \<not> categorical (s_overlay_colormap s)
        \<and> s_color_normalization_method s = ''log'')"

text \<open>
  The reading of the specification for the overlay: in a list of events, the overlay image
  \<open>old\<close> is not removed before a new overlay image (an image drawn at \<^verbatim>\<open>zorder=2\<close>) is
  there.
\<close>

fun overlay_kept_until_replaced :: "image \<Rightarrow> event list \<Rightarrow> bool" where
  "overlay_kept_until_replaced old [] = True"
| "overlay_kept_until_replaced old (ImageRemove im # es) =
     (im \<noteq> old \<and> overlay_kept_until_replaced old es)"
| "overlay_kept_until_replaced old (Imshow im # es) =
     (zorder im = 2 \<or> overlay_kept_until_replaced old es)"
| "overlay_kept_until_replaced old (e # es) = overlay_kept_until_replaced old es"

section \<open>Example artists\<close>

text \<open>Calls in sequence on one artist, and the artists the concrete instances below use.\<close>

definition then_call :: "('a, 's) outcome \<Rightarrow> ('s \<Rightarrow> ('b, 's) outcome) \<Rightarrow> ('b, 's) outcome" where
  "then_call m f = next_do m (\<lambda>_. f)"

definition example_categorical :: bia_colormap where
  "example_categorical = BiaColormap True 10 ''cat10_mod''"

definition example_continuous :: bia_colormap where
  "example_continuous = BiaColormap False 256 ''magma''"

text \<open>A histogram of three points in \<open>2 \<times> 2\<close> bins, then coloured by the indices \<open>4, 5, 6\<close>.\<close>

definition example_histogram :: "(unit, Histogram2D) outcome" where
  "example_histogram =
     Histogram2D_init (Some [(0, 0), (0, 0), (5, 5)]) example_categorical None 2 example_continuous"

definition example_colored_histogram :: "(unit, Histogram2D) outcome" where
  "example_colored_histogram =
     then_call example_histogram (Histogram2D_color_indices_setter (Array (IntArr [4, 5, 6])))"

text \<open>Artists created without data.\<close>

definition empty_scatter :: "(unit, Scatter) outcome" where
  "empty_scatter = Scatter_init None example_categorical None"

definition empty_histogram :: "(unit, Histogram2D) outcome" where
  "empty_histogram = Histogram2D_init None example_categorical None 20 example_continuous"

text \<open>A scatter of two points with a categorical colormap, indices \<open>1, 2\<close> and two sizes.\<close>

definition example_scatter :: "(unit, Scatter) outcome" where
  "example_scatter =
     then_call (then_call (then_call empty_scatter
       (Scatter_data_setter (Some [(0, 0), (1, 1)])))
       (Scatter_color_indices_setter (Array (IntArr [1, 2]))))
       (Scatter_size_setter (SizeArray [10, 20]))"

text \<open>A scatter of two points with a continuous colormap in \<^verbatim>\<open>log\<close> mode.\<close>

definition example_log_scatter :: "(unit, Scatter) outcome" where
  "example_log_scatter =
     then_call (then_call (then_call
       (Scatter_init None example_continuous None)
       (Scatter_data_setter (Some [(0, 0), (1, 1)])))
       (Scatter_color_indices_setter (Array (FloatArr [Num 1, Num 2]))))
       (Scatter_color_normalization_method_setter ''log'')"

section \<open>Arrays and the error monad\<close>
lemma and_then_Inr [simp]: "and_then (Inr v) f = f v"
  by (simp add: and_then_def)

lemma and_then_Inl [simp]: "and_then (Inl e) f = Inl e"
  by (simp add: and_then_def)

lemma norm_index_nonneg: "0 \<le> i \<Longrightarrow> i < int n \<Longrightarrow> norm_index n i = Some (nat i)"
  by (simp add: norm_index_def)

lemma shape_row: "shape_is g h w \<Longrightarrow> i < h \<Longrightarrow> length (g ! i) = w"
  by (auto simp: shape_is_def list_all_length)

lemma getitem2_in_shape:
  "shape_is g h w \<Longrightarrow> 0 \<le> x \<Longrightarrow> x < int h \<Longrightarrow> 0 \<le> y \<Longrightarrow> y < int w
     \<Longrightarrow> getitem2 g x y = Inr (g ! nat x ! nat y)"
  by (auto simp: getitem2_def norm_index_nonneg shape_is_def list_all_length)

lemma setitem2_in_shape:
  "shape_is g h w \<Longrightarrow> 0 \<le> x \<Longrightarrow> x < int h \<Longrightarrow> 0 \<le> y \<Longrightarrow> y < int w
     \<Longrightarrow> setitem2 g x y v = Inr (g[nat x := (g ! nat x)[nat y := v]])"
  by (auto simp: setitem2_def norm_index_nonneg shape_is_def list_all_length)

lemma shape_update: "shape_is g h w \<Longrightarrow> i < h \<Longrightarrow> shape_is (g[i := (g ! i)[j := v]]) h w"
  by (auto simp: shape_is_def list_all_length nth_list_update)

lemma nth_update2:
  "shape_is g h w \<Longrightarrow> a < h \<Longrightarrow> b < w \<Longrightarrow> i < h \<Longrightarrow> j < w \<Longrightarrow>
     (g[i := (g ! i)[j := v]]) ! a ! b = (if a = i \<and> b = j then v else g ! a ! b)"
  by (auto simp: shape_is_def list_all_length nth_list_update)

lemma shape_replicate: "shape_is (replicate h (replicate w v)) h w"
  by (simp add: shape_is_def list_all_length)

section \<open>The statistic histogram: the loops keep the shape\<close>

lemma sum_loop_inv:
  "shape_is sums0 h w \<Longrightarrow> shape_is flags h w \<Longrightarrow> in_grid h w ts \<Longrightarrow>
   \<exists>sums1 flags1. sum_loop ts sums0 flags = Inr (sums1, flags1)
      \<and> shape_is sums1 h w \<and> shape_is flags1 h w
      \<and> (\<forall>i<h. \<forall>j<w. sums1 ! i ! j = fold sum_step (cell_features ts i j) (sums0 ! i ! j)
            \<and> flags1 ! i ! j = (flags ! i ! j \<or> cell_features ts i j \<noteq> []))"
proof (induction ts arbitrary: sums0 flags)
  case Nil
  then show ?case by simp
next
  case (Cons t ts)
  obtain x y f where t: "t = (x, y, f)" by (cases t)
  from Cons.prems(3) t have xy: "0 \<le> x" "x < int h" "0 \<le> y" "y < int w" and rest: "in_grid h w ts"
    by (auto simp: in_grid_def)
  let ?i = "nat x" and ?j = "nat y"
  have ij: "?i < h" "?j < w" using xy by auto
  define s0 where "s0 = sums0 ! ?i ! ?j"
  define sums1 where "sums1 = (if isnan s0 then sums0[?i := (sums0 ! ?i)[?j := Num 0]] else sums0)"
  have sh1: "shape_is sums1 h w"
    using Cons.prems(1) ij by (simp add: sums1_def shape_update)
  have v1: "sums1 ! ?i ! ?j = (if isnan s0 then Num 0 else s0)"
    using Cons.prems(1) ij by (simp add: sums1_def nth_update2 s0_def)
  define sums2 where "sums2 = sums1[?i := (sums1 ! ?i)[?j := sum_step f s0]]"
  define flags1 where "flags1 = flags[?i := (flags ! ?i)[?j := True]]"
  have sh2: "shape_is sums2 h w" using sh1 ij by (simp add: sums2_def shape_update)
  have shf: "shape_is flags1 h w" using Cons.prems(2) ij by (simp add: flags1_def shape_update)
  have g0: "getitem2 sums0 x y = Inr s0"
    using xy Cons.prems(1) by (simp add: getitem2_in_shape s0_def)
  have set1: "(if isnan s0 then setitem2 sums0 x y (Num 0) else Inr sums0) = Inr sums1"
    using xy Cons.prems(1) by (simp add: setitem2_in_shape sums1_def)
  have g1: "getitem2 sums1 x y = Inr (if isnan s0 then Num 0 else s0)"
    using xy sh1 v1 by (simp add: getitem2_in_shape)
  have set2: "setitem2 sums1 x y (fadd (if isnan s0 then Num 0 else s0) f) = Inr sums2"
    using xy sh1 by (simp add: setitem2_in_shape sums2_def sum_step_def)
  have setf: "setitem2 flags x y True = Inr flags1"
    using xy Cons.prems(2) by (simp add: setitem2_in_shape flags1_def)
  have step: "sum_loop (t # ts) sums0 flags = sum_loop ts sums2 flags1"
    by (simp add: t g0 set1 g1 set2 setf)
  from Cons.IH[OF sh2 shf rest] obtain r1 r2 where
    r: "sum_loop ts sums2 flags1 = Inr (r1, r2)" "shape_is r1 h w" "shape_is r2 h w"
    and cells: "\<forall>i<h. \<forall>j<w. r1 ! i ! j = fold sum_step (cell_features ts i j) (sums2 ! i ! j)
            \<and> r2 ! i ! j = (flags1 ! i ! j \<or> cell_features ts i j \<noteq> [])"
    by blast
  have c2: "sums2 ! a ! b = (if a = ?i \<and> b = ?j then sum_step f s0 else sums0 ! a ! b)"
    if "a < h" "b < w" for a b
    using that sh1 ij Cons.prems(1) by (auto simp: sums2_def nth_update2 sums1_def)
  have cf: "flags1 ! a ! b = (if a = ?i \<and> b = ?j then True else flags ! a ! b)"
    if "a < h" "b < w" for a b
    using that ij Cons.prems(2) by (simp add: flags1_def nth_update2)
  have eqi: "(x = int a \<and> y = int b) = (a = ?i \<and> b = ?j)" for a b
    using xy by auto
  have res: "sum_loop (t # ts) sums0 flags = Inr (r1, r2)"
    using step r(1) by simp
  have "r1 ! i ! j = fold sum_step (cell_features (t # ts) i j) (sums0 ! i ! j)
            \<and> r2 ! i ! j = (flags ! i ! j \<or> cell_features (t # ts) i j \<noteq> [])"
    if "i < h" "j < w" for i j
    using cells that by (auto simp: t c2 cf eqi s0_def)
  with res r(2,3) show ?case by blast
qed

lemma fold_max_Max: "fold max xs (x::int) = Max (set (x # xs))"
  by (rule Max.set_eq_fold[symmetric])

lemma py_max_Max: "xs \<noteq> [] \<Longrightarrow> py_max xs = Inr (Max (set xs))"
  by (cases xs) (simp_all add: fold_max_Max del: set_simps)

lemma in_grid_zip:
  assumes "list_all (\<lambda>x. 0 \<le> x) xs" "list_all (\<lambda>y. 0 \<le> y) ys" "xs \<noteq> []" "ys \<noteq> []"
  shows "in_grid (nat (Max (set xs) + 1)) (nat (Max (set ys) + 1)) (zip xs (zip ys fs))"
proof -
  have "0 \<le> x \<and> x < int (nat (Max (set xs) + 1)) \<and> 0 \<le> y \<and> y < int (nat (Max (set ys) + 1))"
    if "(x, y, f) \<in> set (zip xs (zip ys fs))" for x y f
  proof -
    from that have "x \<in> set xs" "(y, f) \<in> set (zip ys fs)"
      by (auto dest: set_zip_leftD set_zip_rightD)
    then have "x \<in> set xs" "y \<in> set ys"
      by (auto dest: set_zip_leftD)
    then have "x \<le> Max (set xs)" "y \<le> Max (set ys)" "0 \<le> x" "0 \<le> y"
      using assms by (auto simp: list_all_iff)
    then show ?thesis by auto
  qed
  then show ?thesis by (auto simp: in_grid_def list_all_iff)
qed

lemma isnan_iff: "isnan v \<longleftrightarrow> v = NaN"
  by (cases v) simp_all

lemma round_double_not_nan [simp]: "round_double q \<noteq> NaN"
  by (simp add: round_double_def Let_def)

lemma to_double_nan [simp]: "to_double v = NaN \<longleftrightarrow> v = NaN"
  by (cases v) simp_all

lemma add_doubles_num: "is_num b \<Longrightarrow> a \<noteq> NaN \<Longrightarrow> add_doubles a b \<noteq> NaN"
  by (cases a; cases b) simp_all

lemma fadd_finite: "isfinite f \<Longrightarrow> \<not> isnan s \<Longrightarrow> \<not> isnan (fadd s f)"
  by (simp add: fadd_def isfinite_def isnan_iff add_doubles_num)

lemma fold_sum_step_finite:
  "list_all isfinite fs \<Longrightarrow> \<not> isnan s \<Longrightarrow>
     fold sum_step fs s = fold (\<lambda>v s. fadd s v) fs s \<and> \<not> isnan (fold sum_step fs s)"
proof (induction fs arbitrary: s)
  case Nil
  then show ?case by simp
next
  case (Cons f fs)
  from Cons.prems have f: "isfinite f" and fs: "list_all isfinite fs" by simp_all
  have step: "fold sum_step (f # fs) s = fold sum_step fs (fadd s f)"
    using Cons.prems(2) by (simp add: sum_step_def)
  have "\<not> isnan (fadd s f)" using f Cons.prems(2) by (rule fadd_finite)
  from Cons.IH[OF fs this]
  have a: "fold sum_step fs (fadd s f) = fold (\<lambda>v s. fadd s v) fs (fadd s f)"
    and b: "\<not> isnan (fold sum_step fs (fadd s f))"
    by blast+
  have c: "fold (\<lambda>v s. fadd s v) (f # fs) s = fold (\<lambda>v s. fadd s v) fs (fadd s f)"
    by simp
  from a b show ?case unfolding step c by (rule conjI)
qed

lemma nth_assign_flagged:
  "shape_is out h w \<Longrightarrow> shape_is fl h w \<Longrightarrow> shape_is s h w \<Longrightarrow> i < h \<Longrightarrow> j < w \<Longrightarrow>
     assign_flagged out fl s ! i ! j = (if fl ! i ! j then s ! i ! j else out ! i ! j)"
  by (auto simp: assign_flagged_def shape_is_def list_all_length)

lemma shape_assign_flagged:
  "shape_is out h w \<Longrightarrow> shape_is fl h w \<Longrightarrow> shape_is s h w \<Longrightarrow>
     shape_is (assign_flagged out fl s) h w"
  by (auto simp: assign_flagged_def shape_is_def list_all_length)

lemma mean_loop_shape:
  "shape_is sums0 h w \<Longrightarrow> shape_is counts h w \<Longrightarrow> in_grid h w ts \<Longrightarrow>
   \<exists>sums1 counts1. mean_loop ts sums0 counts = Inr (sums1, counts1)
      \<and> shape_is sums1 h w \<and> shape_is counts1 h w"
proof (induction ts arbitrary: sums0 counts)
  case Nil
  then show ?case by simp
next
  case (Cons t ts)
  obtain x y f where t: "t = (x, y, f)" by (cases t)
  from Cons.prems(3) t have xy: "0 \<le> x" "x < int h" "0 \<le> y" "y < int w" and rest: "in_grid h w ts"
    by (auto simp: in_grid_def)
  have ij: "nat x < h" using xy by auto
  let ?s1 = "sums0[nat x := (sums0 ! nat x)[nat y := fadd (sums0 ! nat x ! nat y) f]]"
  let ?c1 = "counts[nat x := (counts ! nat x)[nat y := fadd (counts ! nat x ! nat y) (Num 1)]]"
  have step: "mean_loop (t # ts) sums0 counts = mean_loop ts ?s1 ?c1"
    using xy Cons.prems(1,2) by (simp add: t getitem2_in_shape setitem2_in_shape)
  have "shape_is ?s1 h w" "shape_is ?c1 h w"
    using Cons.prems(1,2) ij by (simp_all add: shape_update)
  from Cons.IH[OF this rest] show ?case
    unfolding step .
qed

lemma shape_divide_where:
  "shape_is s h w \<Longrightarrow> shape_is c h w \<Longrightarrow> shape_is out h w \<Longrightarrow>
     shape_is (divide_where s c out) h w"
  by (auto simp: divide_where_def shape_is_def list_all_length)

lemma keys_dict_append: "fst ` set (dict_append d k v) = insert k (fst ` set d)"
  by (induction d k v rule: dict_append.induct) auto

lemma keys_feature_lists_loop:
  "fst ` set (feature_lists_loop ts d) = fst ` set d \<union> (\<lambda>(x, y, f). (x, y)) ` set ts"
  by (induction ts d rule: feature_lists_loop.induct) (auto simp: keys_dict_append)

lemma median_loop_shape:
  "shape_is g h w \<Longrightarrow> \<forall>(x, y) \<in> fst ` set d. 0 \<le> x \<and> x < int h \<and> 0 \<le> y \<and> y < int w \<Longrightarrow>
   \<exists>g1. median_loop d g = Inr g1 \<and> shape_is g1 h w"
proof (induction d arbitrary: g)
  case Nil
  then show ?case by simp
next
  case (Cons e d)
  obtain x y feats where e: "e = ((x, y), feats)" by (cases e) auto
  from Cons.prems(2) e have xy: "0 \<le> x" "x < int h" "0 \<le> y" "y < int w"
    and rest: "\<forall>(x, y) \<in> fst ` set d. 0 \<le> x \<and> x < int h \<and> 0 \<le> y \<and> y < int w"
    by auto
  have ij: "nat x < h" using xy by auto
  let ?g1 = "g[nat x := (g ! nat x)[nat y := np_median feats]]"
  have sh: "shape_is ?g1 h w" using Cons.prems(1) ij by (simp add: shape_update)
  show ?case
  proof (cases "feats = []")
    case True
    then show ?thesis using Cons.IH[OF Cons.prems(1) rest] by (simp add: e)
  next
    case False
    then have "median_loop (e # d) g = median_loop d ?g1"
      using xy Cons.prems(1) by (simp add: e setitem2_in_shape)
    then show ?thesis using Cons.IH[OF sh rest] by simp
  qed
qed

section \<open>The shape of the statistic histogram\<close>

text \<open>
  Claim C6. A call of \<^verbatim>\<open>_calculate_statistic_histogram\<close> on non-empty arrays of bin
  indices (bin indices are not negative) returns, for every statistic, a grid of shape
  \<open>(max(x_indices) + 1, max(y_indices) + 1)\<close>: the grid ends at the highest occupied bin,
  whatever the number of bins of the histogram is.
\<close>

theorem statistic_histogram_shape:
  assumes "x_indices \<noteq> []" "y_indices \<noteq> []"
    and "list_all (\<lambda>x. 0 \<le> x) x_indices" "list_all (\<lambda>y. 0 \<le> y) y_indices"
  shows "\<exists>g. calculate_statistic_histogram x_indices y_indices features statistic = Inr g
      \<and> shape_is g (nat (Max (set x_indices) + 1)) (nat (Max (set y_indices) + 1))"
proof -
  let ?h = "nat (Max (set x_indices) + 1)" and ?w = "nat (Max (set y_indices) + 1)"
  let ?ts = "zip x_indices (zip y_indices features)"
  have mx: "0 \<le> Max (set x_indices)" "0 \<le> Max (set y_indices)"
    using assms by (auto simp: list_all_iff Max_ge_iff neq_Nil_conv)
  have grid: "in_grid ?h ?w ?ts"
    using assms by (intro in_grid_zip) auto
  have full: "np_full2 (Max (set x_indices) + 1) (Max (set y_indices) + 1) v
                = Inr (replicate ?h (replicate ?w v))" for v :: 'a
    using mx by (simp add: np_full2_def)
  consider (mean) "statistic = ''mean''" | (median) "statistic = ''median''"
    | (sum) "statistic = ''sum''"
    | (other) "statistic \<noteq> ''mean''" "statistic \<noteq> ''median''" "statistic \<noteq> ''sum''"
    by blast
  then show ?thesis
  proof cases
    case mean
    from mean_loop_shape[OF shape_replicate shape_replicate grid, of "Num 0" "Num 0"]
    obtain s1 c1 where
      "mean_loop ?ts (replicate ?h (replicate ?w (Num 0))) (replicate ?h (replicate ?w (Num 0)))
         = Inr (s1, c1)" "shape_is s1 ?h ?w" "shape_is c1 ?h ?w"
      by blast
    then show ?thesis
      using assms(1,2)
      by (simp add: calculate_statistic_histogram_def py_max_Max full mean
          shape_divide_where shape_replicate)
  next
    case median
    have "\<forall>(x, y) \<in> fst ` set (feature_lists_loop ?ts []).
            0 \<le> x \<and> x < int ?h \<and> 0 \<le> y \<and> y < int ?w"
      using grid by (auto simp: keys_feature_lists_loop in_grid_def list_all_iff)
    from median_loop_shape[OF shape_replicate this, of NaN]
    show ?thesis
      using assms(1,2)
      by (simp add: calculate_statistic_histogram_def py_max_Max full median)
  next
    case sum
    from sum_loop_inv[OF shape_replicate shape_replicate grid, of "Num 0" False]
    obtain s1 f1 where
      "sum_loop ?ts (replicate ?h (replicate ?w (Num 0))) (replicate ?h (replicate ?w False))
         = Inr (s1, f1)" "shape_is s1 ?h ?w" "shape_is f1 ?h ?w"
      by blast
    then show ?thesis
      using assms(1,2)
      by (simp add: calculate_statistic_histogram_def py_max_Max full sum
          shape_assign_flagged shape_replicate)
  next
    case other
    then show ?thesis
      using assms(1,2)
      by (simp add: calculate_statistic_histogram_def py_max_Max full shape_replicate)
  qed
qed

theorem statistic_histogram_shape_witness:
  "calculate_statistic_histogram [0, 0, 1] [0, 2, 1] [Num 5, Num (- 5), Num 2] ''median''
     = Inr [[Num 5, NaN, Num (- 5)], [NaN, Num 2, NaN]]
   \<and> (\<exists>g. calculate_statistic_histogram [0, 0, 1] [0, 2, 1] [Num 5, Num (- 5), Num 2] ''median'' = Inr g
      \<and> shape_is g 2 3)"
proof -
  have "calculate_statistic_histogram [0, 0, 1] [0, 2, 1] [Num 5, Num (- 5), Num 2] ''median''
     = Inr [[Num 5, NaN, Num (- 5)], [NaN, Num 2, NaN]]"
    by code_simp
  moreover have "nat (Max (set [0, 0, 1 :: int]) + 1) = 2" "nat (Max (set [0, 2, 1 :: int]) + 1) = 3"
    by simp_all
  ultimately show ?thesis
    using statistic_histogram_shape[of "[0, 0, 1]" "[0, 2, 1]" "[Num 5, Num (- 5), Num 2]" "''median''"]
    by simp
qed

section \<open>The sum statistic\<close>

text \<open>
  Claim C5, as amended. With \<^verbatim>\<open>statistic='sum'\<close> a cell that received no point holds
  \<open>NaN\<close>, and a cell that received at least one point, all of whose values are finite
  (neither \<open>NaN\<close> nor an infinity), is defined: it is not \<open>NaN\<close> and holds the \<^verbatim>\<open>float64\<close> sum
  of these values, added to \<open>0\<close> in the order of the points, also when that sum is \<open>0\<close>.
\<close>

theorem sum_statistic_cells:
  assumes "x_indices \<noteq> []" "y_indices \<noteq> []"
    and "list_all (\<lambda>x. 0 \<le> x) x_indices" "list_all (\<lambda>y. 0 \<le> y) y_indices"
  shows "\<exists>g. calculate_statistic_histogram x_indices y_indices features ''sum'' = Inr g
      \<and> shape_is g (nat (Max (set x_indices) + 1)) (nat (Max (set y_indices) + 1))
      \<and> (\<forall>i < nat (Max (set x_indices) + 1). \<forall>j < nat (Max (set y_indices) + 1).
            let member_values = cell_features (zip x_indices (zip y_indices features)) i j in
            (member_values = [] \<longrightarrow> g ! i ! j = NaN) \<and>
            (member_values \<noteq> [] \<and> list_all isfinite member_values
               \<longrightarrow> \<not> isnan (g ! i ! j)
                 \<and> g ! i ! j = fold (\<lambda>v s. fadd s v) member_values (Num 0)))"
proof -
  let ?h = "nat (Max (set x_indices) + 1)" and ?w = "nat (Max (set y_indices) + 1)"
  let ?ts = "zip x_indices (zip y_indices features)"
  have mx: "0 \<le> Max (set x_indices)" "0 \<le> Max (set y_indices)"
    using assms by (auto simp: list_all_iff Max_ge_iff neq_Nil_conv)
  have grid: "in_grid ?h ?w ?ts"
    using assms by (intro in_grid_zip) auto
  from sum_loop_inv[OF shape_replicate shape_replicate grid, of "Num 0" False]
  obtain sums1 flags1 where
    run: "sum_loop ?ts (replicate ?h (replicate ?w (Num 0))) (replicate ?h (replicate ?w False))
            = Inr (sums1, flags1)"
    and sh: "shape_is sums1 ?h ?w" "shape_is flags1 ?h ?w"
    and cells: "\<forall>i<?h. \<forall>j<?w. sums1 ! i ! j = fold sum_step (cell_features ?ts i j) (Num 0)
            \<and> flags1 ! i ! j = (cell_features ?ts i j \<noteq> [])"
    by auto
  let ?g = "assign_flagged (replicate ?h (replicate ?w NaN)) flags1 sums1"
  have res: "calculate_statistic_histogram x_indices y_indices features ''sum'' = Inr ?g"
    using assms(1,2) mx by (simp add: calculate_statistic_histogram_def py_max_Max np_full2_def run)
  have shg: "shape_is ?g ?h ?w"
    using sh by (intro shape_assign_flagged shape_replicate)
  have "?g ! i ! j = (if cell_features ?ts i j = [] then NaN
                      else fold sum_step (cell_features ?ts i j) (Num 0))"
    if "i < ?h" "j < ?w" for i j
    using that cells sh by (simp add: nth_assign_flagged[OF shape_replicate sh(2,1)])
  moreover have "\<not> isnan (fold (\<lambda>v s. fadd s v) fs (Num 0))
      \<and> fold sum_step fs (Num 0) = fold (\<lambda>v s. fadd s v) fs (Num 0)" if "list_all isfinite fs" for fs
  proof -
    have "\<not> isnan (Num 0)" by simp
    from fold_sum_step_finite[OF that this] show ?thesis by metis
  qed
  ultimately show ?thesis
    using res shg by (auto simp: Let_def)
qed

theorem sum_statistic_cells_witness:
  "calculate_statistic_histogram [0, 0, 1] [0, 0, 1] [Num 5, Num (- 5), Num 2] ''sum''
     = Inr [[Num 0, NaN], [NaN, Num 2]]"
proof -
  let ?x = "[0, 0, 1 :: int]" and ?f = "[Num 5, Num (- 5), Num 2]"
  have m: "nat (Max (set ?x) + 1) = 2" by simp
  have c: "cell_features (zip ?x (zip ?x ?f)) 0 0 = [Num 5, Num (- 5)]"
    "cell_features (zip ?x (zip ?x ?f)) 0 1 = []"
    "cell_features (zip ?x (zip ?x ?f)) 1 0 = []"
    "cell_features (zip ?x (zip ?x ?f)) 1 1 = [Num 2]"
    by simp_all
  from sum_statistic_cells[of ?x ?x ?f] obtain g where
    g: "calculate_statistic_histogram ?x ?x ?f ''sum'' = Inr g" "shape_is g 2 2"
    and cells: "\<forall>i<2. \<forall>j<2.
            let member_values = cell_features (zip ?x (zip ?x ?f)) i j in
            (member_values = [] \<longrightarrow> g ! i ! j = NaN) \<and>
            (member_values \<noteq> [] \<and> list_all isfinite member_values
               \<longrightarrow> \<not> isnan (g ! i ! j)
                 \<and> g ! i ! j = fold (\<lambda>v s. fadd s v) member_values (Num 0))"
    unfolding m by auto
  have fin: "list_all isfinite [Num 5, Num (- 5)]" "list_all isfinite [Num 2]"
    by code_simp+
  have ev: "fold (\<lambda>v s. fadd s v) [Num 5, Num (- 5)] (Num 0) = Num 0"
    "fold (\<lambda>v s. fadd s v) [Num 2] (Num 0) = Num 2"
    by code_simp+
  have "g ! 0 ! 0 = Num 0" "g ! 0 ! 1 = NaN" "g ! 1 ! 0 = NaN" "g ! 1 ! 1 = Num 2"
    using cells[rule_format, of 0 0] cells[rule_format, of 0 1] cells[rule_format, of 1 0]
      cells[rule_format, of 1 1] c fin ev
    by (simp_all add: Let_def)
  moreover have "length g = 2" "length (g ! 0) = 2" "length (g ! 1) = 2"
    using g(2) by (auto simp: shape_is_def list_all_length)
  ultimately have "g = [[Num 0, NaN], [NaN, Num 2]]"
    by (auto simp: list_eq_iff_nth_eq less_Suc_eq numeral_2_eq_2 nth_Cons')
  with g(1) show ?thesis by simp
qed

text \<open>
  The claim as stated (defined if and only if a point was assigned) fails on a value that
  is \<open>NaN\<close>: the cell received a point and holds \<open>NaN\<close>.
\<close>

theorem sum_statistic_nan_counterexample:
  "calculate_statistic_histogram [0] [0] [NaN] ''sum'' = Inr [[NaN]]
   \<and> cell_features (zip [0] (zip [0] [NaN])) 0 0 = [NaN]"
  by code_simp

section \<open>Setters: sequencing and resizing\<close>

lemma next_do_Returned [simp]: "next_do (Returned v s) f = f v s"
  by (simp add: next_do_def)

lemma next_do_Raised [simp]: "next_do (Raised e s) f = Raised e s"
  by (simp add: next_do_def)

lemma next_do_ReturnedD:
  "next_do m f = Returned v s' \<Longrightarrow> \<exists>u s1. m = Returned u s1 \<and> f u s1 = Returned v s'"
  by (cases m) simp_all

lemma length_concat_replicate: "length (concat (replicate k xs)) = k * length xs"
  by (induction k) simp_all

lemma ceil_div_covers: "0 < m \<Longrightarrow> n \<le> ((n + m - 1) div m) * (m::nat)"
proof -
  assume m: "0 < m"
  have "n + m - 1 = ((n + m - 1) div m) * m + (n + m - 1) mod m" by simp
  moreover have "(n + m - 1) mod m \<le> m - 1"
    using m mod_less_divisor[of m "n + m - 1"] by linarith
  ultimately show ?thesis using m by linarith
qed

lemma length_resize_list: "length (resize_list z xs n) = n"
  using ceil_div_covers[of "length xs" n]
  by (auto simp: resize_list_def length_concat_replicate)

lemma nth_concat_replicate: "0 < k \<Longrightarrow> i < length xs \<Longrightarrow> concat (replicate k xs) ! i = xs ! i"
  by (cases k) (simp_all add: nth_append)

lemma nth_resize_list:
  assumes "i < n" "i < length xs"
  shows "resize_list z xs n ! i = xs ! i"
proof -
  from assms have ne: "xs \<noteq> []" "n \<noteq> 0" by auto
  then have "0 < (n + length xs - 1) div length xs"
    by (simp add: div_greater_zero_iff)
  with assms ne show ?thesis
    by (simp add: resize_list_def nth_concat_replicate)
qed

lemma len_resize_color_indices: "len (resize_color_indices old n) = n"
  by (cases old) (simp_all add: resize_color_indices_def Let_def length_resize_list)

lemma dtype_resize_color_indices:
  "dtype_of (resize_color_indices old n) = dtype_of old"
  by (cases old) (simp_all add: resize_color_indices_def Let_def)

lemma nth_resize_color_indices:
  assumes "i < n"
  shows "as_floats (resize_color_indices old n) ! i = (if i < len old then as_floats old ! i else Num 0)"
proof (cases old)
  case (IntArr xs)
  with assms show ?thesis
    by (auto simp: resize_color_indices_def Let_def length_resize_list nth_resize_list nth_append)
next
  case (FloatArr vs)
  with assms show ?thesis
    by (auto simp: resize_color_indices_def Let_def length_resize_list nth_resize_list nth_append)
next
  case (Int32Arr xs)
  with assms show ?thesis
    by (auto simp: resize_color_indices_def Let_def length_resize_list nth_resize_list nth_append)
qed

lemma resize_list_same_length: "resize_list z xs (length xs) = xs"
  by (rule nth_equalityI) (simp_all add: length_resize_list nth_resize_list)

lemma resize_zeros:
  "resize_color_indices (IntArr (replicate n 0)) n = IntArr (replicate n 0)"
  using resize_list_same_length[of 0 "replicate n (0::int)"]
  by (simp add: resize_color_indices_def Let_def)

lemma fmin_positive:
  "x \<noteq> NaN \<Longrightarrow> q \<noteq> NaN \<Longrightarrow> \<not> fle0 (fmin x q) \<Longrightarrow> \<not> fle0 x \<and> \<not> fle0 q"
  by (cases x; cases q) (auto simp: fmin_def split: if_splits)

lemma fmin_not_nan: "x \<noteq> NaN \<Longrightarrow> q \<noteq> NaN \<Longrightarrow> fmin x q \<noteq> NaN"
  by (simp add: fmin_def)

lemma fold_fmin_positive:
  "q \<noteq> NaN \<Longrightarrow> NaN \<notin> set qs \<Longrightarrow> \<not> fle0 (fold fmin qs q) \<Longrightarrow> v \<in> set (q # qs)
     \<Longrightarrow> \<not> fle0 v"
proof (induction qs arbitrary: q v)
  case Nil
  then show ?case by simp
next
  case (Cons x xs)
  from Cons.prems(2) have x: "x \<noteq> NaN" and xs: "NaN \<notin> set xs" by auto
  have m: "fmin x q \<noteq> NaN" using x Cons.prems(1) by (rule fmin_not_nan)
  from Cons.prems(3) have f: "\<not> fle0 (fold fmin xs (fmin x q))" by simp
  have rest: "\<not> fle0 w" if "w \<in> set (fmin x q # xs)" for w
    using Cons.IH[OF m xs f that] .
  from rest[of "fmin x q"] have "\<not> fle0 x \<and> \<not> fle0 q"
    using fmin_positive[OF x Cons.prems(1)] by simp
  with rest Cons.prems(4) show ?case by auto
qed

lemma nanmin_positive:
  assumes "np_nanmin vs = Inr mn" "\<not> fle0 mn" "v \<in> set vs"
  shows "\<not> fle0 v"
proof (cases "v = NaN")
  case True
  then show ?thesis by simp
next
  case False
  with assms(3) have v: "v \<in> set (not_nan vs)" by (simp add: not_nan_def isnan_iff)
  then obtain q qs where qs: "not_nan vs = q # qs" by (cases "not_nan vs") auto
  have "NaN \<notin> set (not_nan vs)" by (simp add: not_nan_def)
  with qs have nn: "q \<noteq> NaN" "NaN \<notin> set qs" by auto
  from assms(1) qs have "mn = fold fmin qs q"
    by (auto simp: np_nanmin_def split: if_splits)
  with assms(2) have "\<not> fle0 (fold fmin qs q)" by simp
  from fold_fmin_positive[OF nn this] v qs show ?thesis by simp
qed

lemma log_floor:
  assumes "np_nanmin (as_floats a) = Inr mn"
  shows "assign_nonpositive a (if fle0 mn then Num (1 / 100) else mn)
           = assign_nonpositive a (Num (1 / 100))"
proof (cases "fle0 mn")
  case True
  then show ?thesis by simp
next
  case False
  have pos: "\<not> fle0 v" if "v \<in> set (as_floats a)" for v
    using nanmin_positive[OF assms False that] .
  show ?thesis
  proof (cases a)
    case (IntArr xs)
    have "\<not> x \<le> 0" if "x \<in> set xs" for x
      using pos[of "Num (of_int x)"] that IntArr by auto
    then have "map (\<lambda>x. if x \<le> 0 then c else x) xs = xs" for c
      by (intro map_idI) simp
    then show ?thesis using IntArr by simp
  next
    case (FloatArr vs)
    have "map (\<lambda>x. if fle0 x then c else x) vs = vs" for c
      using pos FloatArr by (intro map_idI) simp
    then show ?thesis using FloatArr by simp
  next
    case (Int32Arr xs)
    have "\<not> x \<le> 0" if "x \<in> set xs" for x
      using pos[of "Num (of_int x)"] that Int32Arr by auto
    then have "map (\<lambda>x. if x \<le> 0 then c else x) xs = xs" for c
      by (intro map_idI) simp
    then show ?thesis using Int32Arr by simp
  qed
qed

lemma floor_hundredth [simp]: "\<lfloor>1 / 100 :: rat\<rfloor> = 0"
  by (simp add: floor_eq_iff)

lemma assign_nonpositive_zeros:
  "assign_nonpositive (IntArr (replicate n 0)) (Num (1 / 100)) = IntArr (replicate n 0)"
  by simp

lemma len_assign_nonpositive [simp]: "len (assign_nonpositive a v) = len a"
  by (cases a) simp_all

lemma dtype_assign_nonpositive [simp]: "dtype_of (assign_nonpositive a v) = dtype_of a"
  by (cases a) simp_all

lemma nth_assign_nonpositive_float:
  "dtype_of a = Float64 \<Longrightarrow> i < len a \<Longrightarrow>
     as_floats (assign_nonpositive a v) ! i = (if fle0 (as_floats a ! i) then v else as_floats a ! i)"
  by (cases a) simp_all

lemma Scatter_norm_indices:
  assumes "Scatter_norm a cls s = Returned (n, a1) s1"
  shows "a1 = (if \<not> categorical (s_overlay_colormap s) \<and> s_color_normalization_method s = ''log''
               then assign_nonpositive a (Num (1 / 100)) else a)
       \<and> s_color_indices s1 = (if \<not> categorical (s_overlay_colormap s) \<and> s_color_normalization_method s = ''log''
               then Some (assign_nonpositive a (Num (1 / 100))) else s_color_indices s)
       \<and> s_data s1 = s_data s \<and> s_scatter s1 = s_scatter s \<and> s_size s1 = s_size s
       \<and> s_overlay_colormap s1 = s_overlay_colormap s
       \<and> (\<not> categorical (s_overlay_colormap s)
            \<longrightarrow> s_color_normalization_method s1 = s_color_normalization_method s)"
proof (cases "categorical (s_overlay_colormap s)")
  case True
  with assms show ?thesis
    by (auto simp: Scatter_norm_def Let_def s_emit_def split: if_splits)
next
  case False
  show ?thesis
  proof (cases "s_color_normalization_method s = ''log''")
    case True
    from assms False True obtain mn mx where
      mn: "np_nanmin (as_floats a) = Inr mn"
      and r: "a1 = assign_nonpositive a (if fle0 mn then Num (1 / 100) else mn)"
        "s1 = (s_emit (Warn (LogNormalizationApplied (if fle0 mn then Num (1 / 100) else mn))) s)
                \<lparr>s_color_indices := Some a1\<rparr>"
      by (auto simp: Scatter_norm_def Let_def split: sum.splits)
    show ?thesis
      using False True r log_floor[OF mn] by (simp add: s_emit_def)
  next
    case nolog: False
    with assms False show ?thesis
      by (auto simp: Scatter_norm_def Let_def split: if_splits sum.splits)
  qed
qed

lemma Scatter_recolor_indices:
  assumes "Scatter_recolor s = Returned () s1" "s_color_indices s = Some a"
  shows "s_color_indices s1 = Some (if scatter_clamps s then assign_nonpositive a (Num (1 / 100)) else a)
       \<and> s_data s1 = s_data s \<and> (s_scatter s1 = None) = (s_scatter s = None) \<and> s_size s1 = s_size s
       \<and> s_overlay_colormap s1 = s_overlay_colormap s
       \<and> (\<not> categorical (s_overlay_colormap s)
            \<longrightarrow> s_color_normalization_method s1 = s_color_normalization_method s)"
proof (cases "s_scatter s")
  case None
  with assms show ?thesis by (simp add: Scatter_recolor_def scatter_clamps_def)
next
  case (Some sc)
  with assms obtain cls n a1 s2 where
    n: "Scatter_norm a cls s = Returned (n, a1) s2"
    and s1: "s1 = s2\<lparr>s_scatter := Some (sc\<lparr>pc_facecolor :=
                Some (ToRgba n (cmap (s_overlay_colormap s2)) a1)\<rparr>)\<rparr>"
    by (auto simp: Scatter_recolor_def split: option.splits dest!: next_do_ReturnedD)
  from Scatter_norm_indices[OF n] assms(2) Some show ?thesis
    by (simp add: s1 scatter_clamps_def)
qed

lemma Scatter_color_indices_setter_indices:
  assumes "Scatter_color_indices_setter ind s = Returned () s'"
    and "broadcast_indices ind (s_data s) = Inr (Some a)"
  shows "s_color_indices s' = Some (if scatter_clamps s then assign_nonpositive a (Num (1 / 100)) else a)
       \<and> s_data s' = s_data s \<and> (s_scatter s' = None) = (s_scatter s = None) \<and> s_size s' = s_size s
       \<and> s_overlay_colormap s' = s_overlay_colormap s
       \<and> (\<not> categorical (s_overlay_colormap s)
            \<longrightarrow> s_color_normalization_method s' = s_color_normalization_method s)"
proof -
  let ?s0 = "s\<lparr>s_color_indices := Some a\<rparr>"
  from assms obtain s1 where
    r: "Scatter_recolor ?s0 = Returned () s1"
    and s': "s' = s_emit DrawIdle (s_emit (ColorIndicesChanged (s_color_indices s1)) s1)"
    by (auto simp: Scatter_color_indices_setter_def Scatter_draw_def dest!: next_do_ReturnedD)
  from Scatter_recolor_indices[OF r] show ?thesis
    by (simp add: s' s_emit_def scatter_clamps_def)
qed

lemma scatter_data_setter_color_indices:
  assumes run: "Scatter_data_setter (Some d) s = Returned () s'" and d: "d \<noteq> []"
    and old: "s_color_indices s = Some old"
  shows "\<exists>new. s_color_indices s' = Some new \<and> len new = length d
      \<and> (s_scatter s = None \<longrightarrow> new = IntArr (replicate (length d) 0))
      \<and> (s_scatter s \<noteq> None \<longrightarrow>
           new = (if scatter_clamps s
                  then assign_nonpositive (resize_color_indices old (length d)) (Num (1 / 100))
                  else resize_color_indices old (length d)))"
proof -
  let ?s1 = "s_emit (DataChanged d) (s\<lparr>s_data := Some d\<rparr>)"
  from run d obtain s2 s3 s4 where
    first: "(case s_scatter ?s1 of
               None \<Rightarrow> (case s_size ?s1 of
                          None \<Rightarrow> Raised AttributeError ?s1
                        | Some sz \<Rightarrow> Scatter_color_indices_setter (Scalar (PyInt 0))
                                       (?s1\<lparr>s_scatter := Some (ax_scatter d sz)\<rparr>))
             | Some sc \<Rightarrow> Returned () (?s1\<lparr>s_scatter := Some (sc\<lparr>pc_offsets := d\<rparr>)\<rparr>))
            = Returned () s2"
    and second: "Scatter_update_color_indices (length d) s2 = Returned () s3"
    and third: "Scatter_size_setter (SizeScalar 50) s3 = Returned () s4"
      "Scatter_draw s4 = Returned () s'"
    by (auto simp: Scatter_data_setter_def Let_def dest!: next_do_ReturnedD)
  have keep: "s_color_indices s' = s_color_indices s3"
    using third
    by (auto simp: Scatter_size_setter_def Scatter_draw_def s_emit_def Let_def
        split: option.splits size_value.splits)
  show ?thesis
  proof (cases "s_scatter s")
    case None
    from first None obtain sz where
      c1: "Scatter_color_indices_setter (Scalar (PyInt 0)) (?s1\<lparr>s_scatter := Some (ax_scatter d sz)\<rparr>)
             = Returned () s2"
      by (auto simp: s_emit_def split: option.splits)
    have b: "broadcast_indices (Scalar (PyInt 0)) (s_data (?s1\<lparr>s_scatter := Some (ax_scatter d sz)\<rparr>))
               = Inr (Some (IntArr (replicate (length d) 0)))"
      by (simp add: s_emit_def)
    from Scatter_color_indices_setter_indices[OF c1 b]
    have s2: "s_color_indices s2 = Some (IntArr (replicate (length d) 0))"
      by (simp split: if_splits)
    with second have c2: "Scatter_color_indices_setter (Array (IntArr (replicate (length d) 0))) s2
             = Returned () s3"
      by (simp add: resize_zeros Scatter_update_color_indices_def)
    from Scatter_color_indices_setter_indices[OF c2]
    have "s_color_indices s3 = Some (IntArr (replicate (length d) 0))"
      by (simp split: if_splits)
    with keep None show ?thesis by simp
  next
    case (Some sc)
    with first have s2: "s2 = ?s1\<lparr>s_scatter := Some (sc\<lparr>pc_offsets := d\<rparr>)\<rparr>"
      by (simp add: s_emit_def)
    then have c: "s_color_indices s2 = Some old" "scatter_clamps s2 = scatter_clamps s"
      using old Some by (simp_all add: s_emit_def scatter_clamps_def)
    with second have c2: "Scatter_color_indices_setter
          (Array (resize_color_indices old (length d))) s2 = Returned () s3"
      by (simp add: Scatter_update_color_indices_def)
    from Scatter_color_indices_setter_indices[OF c2] c(2)
    have "s_color_indices s3 = Some (if scatter_clamps s
                  then assign_nonpositive (resize_color_indices old (length d)) (Num (1 / 100))
                  else resize_color_indices old (length d))"
      by simp
    with keep Some show ?thesis by (simp add: len_resize_color_indices)
  qed
qed

section \<open>What the histogram's helpers leave unchanged\<close>

lemma warned_refl [simp]: "warned s s"
  by (simp add: warned_def)

lemma warned_emit [simp]: "warned s s' \<Longrightarrow> warned s (h_emit (Warn w) s')"
  by (auto simp: warned_def h_emit_def)

lemma warned_overlay_method [simp]:
  "warned s s' \<Longrightarrow> warned s (s'\<lparr>h_overlay_color_normalization_method := m\<rparr>)"
  by (simp add: warned_def)

lemma warned_histogram_method [simp]:
  "warned s s' \<Longrightarrow> warned s (s'\<lparr>h_histogram_color_normalization_method := m\<rparr>)"
  by (simp add: warned_def)

lemma handle_categorical_warned:
  "warned s (final_state (handle_norm_method_for_categorical_colormap is_overlay cm dt s))"
  by (simp add: handle_norm_method_for_categorical_colormap_def Let_def)

lemma handle_continuous_warned:
  "warned s (final_state (handle_norm_method_for_continuous_colormap is_overlay cls g l m s))"
  by (simp add: handle_norm_method_for_continuous_colormap_def Let_def split: sum.splits)

lemma final_state_next_do_Returned:
  "final_state (next_do m (\<lambda>v. Returned (f v))) = final_state m"
  by (cases m) simp_all

lemma select_norm_class_warned:
  "warned s (final_state (select_norm_class is_overlay g s))"
  using handle_categorical_warned handle_continuous_warned
  by (auto simp: select_norm_class_def final_state_next_do_Returned
      split: sum.splits option.splits prod.splits)

lemma array_to_rgba_warned:
  "warned s (final_state (histogram2D_array_to_rgba g xe ye is_overlay s))"
proof (cases "select_norm_class is_overlay g s")
  case (Returned v s1)
  with select_norm_class_warned[of s is_overlay g] show ?thesis
    by (simp add: histogram2D_array_to_rgba_def split: prod.splits)
next
  case (Raised e s1)
  with select_norm_class_warned[of s is_overlay g] show ?thesis
    by (simp add: histogram2D_array_to_rgba_def)
qed

text \<open>What \<open>draw_overlay\<close> leaves behind.\<close>

lemma draw_overlay_effect:
  assumes "h_overlay_histogram_image s = None"
  shows "h_color_indices (final_state (draw_overlay s)) = h_color_indices s
    \<and> h_histogram_image (final_state (draw_overlay s)) = h_histogram_image s
    \<and> (\<exists>ws. list_all is_Warn ws \<and>
          (h_events (final_state (draw_overlay s)) = h_events s @ ws
             \<and> h_overlay_histogram_image (final_state (draw_overlay s)) = None
           \<or> (\<exists>im. h_events (final_state (draw_overlay s)) = h_events s @ ws @ [Imshow im]
                 \<and> h_overlay_histogram_image (final_state (draw_overlay s)) = Some im
                 \<and> zorder im = 2)))"
proof -
  have trivial: ?thesis if "final_state (draw_overlay s) = s"
    unfolding that using assms by (auto intro: exI[of _ "[]"])
  show ?thesis
  proof (cases "h_histogram s")
    case None
    then show ?thesis by (intro trivial) (simp add: draw_overlay_def)
  next
    case (Some hist)
    obtain counts x_edges y_edges where hist: "hist = (counts, x_edges, y_edges)"
      by (cases hist) auto
    show ?thesis
    proof (cases "h_data s")
      case None
      then show ?thesis using Some by (intro trivial) (simp add: draw_overlay_def hist)
    next
      case d: (Some d)
      show ?thesis
      proof (cases "and_then (bin_indices (map fst d) x_edges) (\<lambda>x_bin_indices.
                     and_then (bin_indices (map snd d) y_edges) (\<lambda>y_bin_indices.
                       overlay_statistic x_bin_indices y_bin_indices (h_color_indices s)))")
        case (Inl e)
        then show ?thesis using Some d by (intro trivial) (simp add: draw_overlay_def hist)
      next
        case (Inr st)
        show ?thesis
        proof (cases "list_all (list_all isnan) st")
          case True
          then show ?thesis using Some d Inr by (intro trivial) (simp add: draw_overlay_def hist)
        next
          case False
          let ?o = "histogram2D_array_to_rgba st x_edges y_edges True s"
          have w: "warned s (final_state ?o)" by (rule array_to_rgba_warned)
          then obtain ws where ws: "h_events (final_state ?o) = h_events s @ ws" "list_all is_Warn ws"
            by (auto simp: warned_def)
          have run: "draw_overlay s = next_do ?o (\<lambda>(rgba, _) s1.
                           (let s2 = s1\<lparr>h_overlay_histogram_rgba := Some rgba\<rparr> in
                            case image_extent x_edges y_edges of
                              Inl e \<Rightarrow> Raised e s2
                            | Inr ext \<Rightarrow>
                                (let im = AxesImage rgba ext 2 (h_overlay_interpolation s2)
                                            (h_overlay_opacity s2)
                                 in Returned ()
                                      (h_emit (Imshow im)
                                         (s2\<lparr>h_overlay_histogram_image := Some im\<rparr>)))))"
            using Some d Inr False by (simp add: draw_overlay_def hist)
          show ?thesis
          proof (cases ?o)
            case (Raised e s1)
            with w ws assms show ?thesis
              by (auto simp: run warned_def)
          next
            case (Returned v s1)
            obtain rgba g1 where v: "v = (rgba, g1)" by (cases v)
            show ?thesis
            proof (cases "image_extent x_edges y_edges")
              case (Inl e)
              with Returned v w ws assms show ?thesis
                by (auto simp: run warned_def)
            next
              case ext: (Inr ext)
              with Returned v w ws assms show ?thesis
                by (auto simp: run warned_def h_emit_def Let_def)
            qed
          qed
        qed
      qed
    qed
  qed
qed

lemma is_Warn_other: "is_Warn e \<Longrightarrow> \<not> is_ImageRemove e \<and> \<not> is_Imshow e"
  by (cases e) simp_all

lemma color_indices_setter_unfold:
  assumes "broadcast_indices ind (h_data s) = Inr x"
  shows "Histogram2D_color_indices_setter ind s =
           next_do (draw_overlay
                      (case h_overlay_histogram_image s of
                         None \<Rightarrow> s\<lparr>h_color_indices := x\<rparr>
                       | Some im \<Rightarrow> (h_emit (ImageRemove im) (s\<lparr>h_color_indices := x\<rparr>))
                                      \<lparr>h_overlay_histogram_image := None\<rparr>))
             (\<lambda>_ s3. Histogram2D_draw (h_emit (ColorIndicesChanged (h_color_indices s3)) s3))"
  using assms by (simp add: Histogram2D_color_indices_setter_def Let_def split: option.splits)

lemma Histogram2D_color_indices_setter_indices:
  assumes "broadcast_indices ind (h_data s) = Inr x"
  shows "h_color_indices (final_state (Histogram2D_color_indices_setter ind s)) = x"
proof -
  let ?s2 = "(case h_overlay_histogram_image s of
                None \<Rightarrow> s\<lparr>h_color_indices := x\<rparr>
              | Some im \<Rightarrow> (h_emit (ImageRemove im) (s\<lparr>h_color_indices := x\<rparr>))
                              \<lparr>h_overlay_histogram_image := None\<rparr>)"
  have none: "h_overlay_histogram_image ?s2 = None" and ci: "h_color_indices ?s2 = x"
    by (simp_all add: h_emit_def split: option.splits)
  from draw_overlay_effect[OF none] ci
  have "h_color_indices (final_state (draw_overlay ?s2)) = x" by simp
  then show ?thesis
    unfolding color_indices_setter_unfold[OF assms]
    by (cases "draw_overlay ?s2") (simp_all add: Histogram2D_draw_def h_emit_def)
qed

lemma array_to_rgba_Returned_color_indices:
  "histogram2D_array_to_rgba g xe ye is_overlay s = Returned v s1
     \<Longrightarrow> h_color_indices s1 = h_color_indices s"
  using array_to_rgba_warned[of s g xe ye is_overlay] by (simp add: warned_def)

lemma update_color_indices_result:
  assumes "Histogram2D_update_color_indices n s = Returned () s'"
  shows "h_color_indices s \<noteq> None \<longrightarrow>
           h_color_indices s' = Some (resize_color_indices (the (h_color_indices s)) n)"
proof
  assume "h_color_indices s \<noteq> None"
  then obtain old where old: "h_color_indices s = Some old" by auto
  with assms have "Histogram2D_color_indices_setter (Array (resize_color_indices old n)) s
                     = Returned () s'"
    by (simp add: Histogram2D_update_color_indices_def)
  with Histogram2D_color_indices_setter_indices[of "Array (resize_color_indices old n)" s
      "Some (resize_color_indices old n)"]
  show "h_color_indices s' = Some (resize_color_indices (the (h_color_indices s)) n)"
    by (simp add: old)
qed

lemma Histogram2D_draw_color_indices:
  "Histogram2D_draw s = Returned () s' \<Longrightarrow> h_color_indices s' = h_color_indices s"
  by (auto simp: Histogram2D_draw_def h_emit_def)

lemma histogram_data_setter_color_indices:
  assumes run: "Histogram2D_data_setter (Some d) h = Returned () h'" and d: "d \<noteq> []"
    and old: "h_color_indices h = Some old"
  shows "h_color_indices h' = Some (resize_color_indices old (length d))"
  using run d old
  by (auto simp: Histogram2D_data_setter_def Let_def h_emit_def
      split: sum.splits prod.splits option.splits
      dest!: next_do_ReturnedD array_to_rgba_Returned_color_indices
        update_color_indices_result Histogram2D_draw_color_indices)

lemma returned_final_state: "returned m \<Longrightarrow> m = Returned () (final_state m)"
  by (cases m) simp_all

section \<open>Empty data\<close>

text \<open>
  Claim C4. Setting \<^verbatim>\<open>data\<close> to \<^verbatim>\<open>None\<close> or to an empty array returns without an
  exception and leaves the artist as it was: every attribute, the drawn images and the log
  of effects, so that no signal is emitted.
\<close>

theorem data_setter_none_or_empty_is_noop:
  "Scatter_data_setter None s = Returned () s
   \<and> Scatter_data_setter (Some []) s = Returned () s
   \<and> Histogram2D_data_setter None h = Returned () h
   \<and> Histogram2D_data_setter (Some []) h = Returned () h"
  by (simp add: Scatter_data_setter_def Histogram2D_data_setter_def)

theorem data_setter_none_or_empty_is_noop_witness:
  "Scatter_data_setter None (final_state example_scatter) = Returned () (final_state example_scatter)
   \<and> Scatter_data_setter (Some []) (final_state example_scatter)
       = Returned () (final_state example_scatter)
   \<and> Histogram2D_data_setter None (final_state example_histogram)
       = Returned () (final_state example_histogram)
   \<and> Histogram2D_data_setter (Some []) (final_state example_histogram)
       = Returned () (final_state example_histogram)"
  by (rule data_setter_none_or_empty_is_noop)

section \<open>The marker size after a data update\<close>

lemma Scatter_size_setter_size:
  "Scatter_size_setter v s = Returned u s' \<Longrightarrow> s_size s' = Some v"
  by (auto simp: Scatter_size_setter_def Scatter_draw_def s_emit_def Let_def
      split: option.splits size_value.splits)

text \<open>
  Claim C9. An assignment to \<^verbatim>\<open>Scatter.data\<close> of a non-empty point set that returns leaves
  the size at the scalar \<open>50\<close>, whatever size was set before.
\<close>

theorem scatter_data_setter_resets_size:
  assumes "Scatter_data_setter (Some d) s = Returned () s'" and "d \<noteq> []"
  shows "s_size s' = Some (SizeScalar 50)"
proof -
  from assms obtain s3 s4 where
    "Scatter_size_setter (SizeScalar 50) s3 = Returned () s4" "Scatter_draw s4 = Returned () s'"
    by (auto simp: Scatter_data_setter_def Let_def dest!: next_do_ReturnedD)
  then show ?thesis
    by (auto simp: Scatter_draw_def s_emit_def dest: Scatter_size_setter_size)
qed

theorem scatter_data_setter_resets_size_witness:
  "s_size (final_state example_scatter) = Some (SizeArray [10, 20])
   \<and> returned (Scatter_data_setter (Some [(0, 0), (1, 1), (2, 2)]) (final_state example_scatter))
   \<and> s_size (final_state
        (Scatter_data_setter (Some [(0, 0), (1, 1), (2, 2)]) (final_state example_scatter)))
       = Some (SizeScalar 50)"
proof -
  let ?m = "Scatter_data_setter (Some [(0, 0), (1, 1), (2, 2)]) (final_state example_scatter)"
  have before: "s_size (final_state example_scatter) = Some (SizeArray [10, 20])"
    by code_simp
  have r: "returned ?m" by code_simp
  from scatter_data_setter_resets_size[OF returned_final_state[OF r]]
  have "s_size (final_state ?m) = Some (SizeScalar 50)" by simp
  with before r show ?thesis by simp
qed

section \<open>A scalar color index without data\<close>

text \<open>
  Claim C10. On an artist whose data is \<^verbatim>\<open>None\<close>, assigning a scalar to
  \<^verbatim>\<open>color_indices\<close> raises \<^verbatim>\<open>TypeError\<close> (from \<^verbatim>\<open>len(None)\<close>) and changes nothing.
\<close>

theorem color_indices_scalar_without_data_raises:
  assumes "s_data s = None" and "h_data h = None"
  shows "Scatter_color_indices_setter (Scalar v) s = Raised TypeError s
    \<and> Histogram2D_color_indices_setter (Scalar v) h = Raised TypeError h"
  using assms by (simp add: Scatter_color_indices_setter_def Histogram2D_color_indices_setter_def)

theorem color_indices_scalar_without_data_raises_witness:
  "s_data (final_state empty_scatter) = None \<and> h_data (final_state empty_histogram) = None
   \<and> Scatter_color_indices_setter (Scalar (PyInt 3)) (final_state empty_scatter)
       = Raised TypeError (final_state empty_scatter)
   \<and> Histogram2D_color_indices_setter (Scalar (PyInt 3)) (final_state empty_histogram)
       = Raised TypeError (final_state empty_histogram)"
proof -
  have s: "s_data (final_state empty_scatter) = None" by code_simp
  have h: "h_data (final_state empty_histogram) = None" by code_simp
  from color_indices_scalar_without_data_raises[OF s h, of "PyInt 3"] s h
  show ?thesis by simp
qed

section \<open>The overlay image while the color indices change\<close>

text \<open>
  Claim C2, as amended. When a \<^verbatim>\<open>Histogram2D\<close> that shows an overlay image is given new
  color indices, the first effect is the removal of that image; the new overlay image, if
  one is drawn, is drawn after it, and nothing else is removed: the base image of the
  counts stays. This holds whether the setter returns or raises.
\<close>

theorem overlay_removed_before_redrawn:
  assumes "h_overlay_histogram_image s = Some old"
    and "broadcast_indices ind (h_data s) = Inr x"
  shows "\<exists>rest. h_events (final_state (Histogram2D_color_indices_setter ind s))
                  = h_events s @ ImageRemove old # rest
      \<and> list_all (\<lambda>e. \<not> is_ImageRemove e) rest
      \<and> h_histogram_image (final_state (Histogram2D_color_indices_setter ind s))
           = h_histogram_image s
      \<and> (case h_overlay_histogram_image (final_state (Histogram2D_color_indices_setter ind s)) of
            None \<Rightarrow> list_all (\<lambda>e. \<not> is_Imshow e) rest
          | Some new \<Rightarrow> Imshow new \<in> set rest)"
proof -
  let ?s2 = "(h_emit (ImageRemove old) (s\<lparr>h_color_indices := x\<rparr>))\<lparr>h_overlay_histogram_image := None\<rparr>"
  let ?f = "final_state (Histogram2D_color_indices_setter ind s)"
  have run: "Histogram2D_color_indices_setter ind s =
           next_do (draw_overlay ?s2)
             (\<lambda>_ s3. Histogram2D_draw (h_emit (ColorIndicesChanged (h_color_indices s3)) s3))"
    using color_indices_setter_unfold[OF assms(2)] assms(1) by simp
  have none: "h_overlay_histogram_image ?s2 = None" by simp
  have ev2: "h_events ?s2 = h_events s @ [ImageRemove old]"
    and im2: "h_histogram_image ?s2 = h_histogram_image s"
    by (simp_all add: h_emit_def)
  let ?d = "final_state (draw_overlay ?s2)"
  from draw_overlay_effect[OF none] obtain ws where
    base: "h_histogram_image ?d = h_histogram_image s" and ws: "list_all is_Warn ws"
    and alt: "h_events ?d = h_events s @ ImageRemove old # ws \<and> h_overlay_histogram_image ?d = None
           \<or> (\<exists>im. h_events ?d = h_events s @ ImageRemove old # ws @ [Imshow im]
                 \<and> h_overlay_histogram_image ?d = Some im)"
    unfolding ev2 im2 by auto
  have nw: "list_all (\<lambda>e. \<not> is_ImageRemove e) ws" "list_all (\<lambda>e. \<not> is_Imshow e) ws"
    using ws by (auto simp: list_all_iff dest: is_Warn_other)
  obtain tail where
    f: "h_events ?f = h_events ?d @ tail" "list_all (\<lambda>e. \<not> is_ImageRemove e \<and> \<not> is_Imshow e) tail"
      "h_histogram_image ?f = h_histogram_image ?d"
      "h_overlay_histogram_image ?f = h_overlay_histogram_image ?d"
  proof (cases "draw_overlay ?s2")
    case (Returned u s3)
    then show ?thesis
      by (intro that[of "[ColorIndicesChanged (h_color_indices s3), DrawIdle]"])
        (simp_all add: run Histogram2D_draw_def h_emit_def)
  next
    case (Raised e s3)
    then show ?thesis by (intro that[of "[]"]) (simp_all add: run)
  qed
  from alt show ?thesis
  proof
    assume a: "h_events ?d = h_events s @ ImageRemove old # ws \<and> h_overlay_histogram_image ?d = None"
    show ?thesis
      using a f nw base
      by (intro exI[of _ "ws @ tail"]) (auto simp: list_all_iff)
  next
    assume "\<exists>im. h_events ?d = h_events s @ ImageRemove old # ws @ [Imshow im]
                 \<and> h_overlay_histogram_image ?d = Some im"
    then obtain im where a: "h_events ?d = h_events s @ ImageRemove old # ws @ [Imshow im]"
      "h_overlay_histogram_image ?d = Some im" by blast
    show ?thesis
      using a f nw base
      by (intro exI[of _ "ws @ [Imshow im] @ tail"]) (auto simp: list_all_iff)
  qed
qed

theorem overlay_removed_before_redrawn_witness:
  "h_overlay_histogram_image (final_state example_histogram)
     = Some (AxesImage (RgbaImage (NormBounds NormalizeClass (Num 0) (Num 10)) ''cat10_mod''
               [[Num 0, NaN], [NaN, Num 0]]) [0, 5, 0, 5] 2 ''nearest'' 1)
   \<and> broadcast_indices (Scalar (PyInt 3)) (h_data (final_state example_histogram))
       = Inr (Some (IntArr [3, 3, 3]))
   \<and> (\<exists>rest.
         h_events (final_state
            (Histogram2D_color_indices_setter (Scalar (PyInt 3)) (final_state example_histogram)))
         = h_events (final_state example_histogram)
             @ ImageRemove (AxesImage (RgbaImage (NormBounds NormalizeClass (Num 0) (Num 10))
                 ''cat10_mod'' [[Num 0, NaN], [NaN, Num 0]]) [0, 5, 0, 5] 2 ''nearest'' 1) # rest
         \<and> list_all (\<lambda>e. \<not> is_ImageRemove e) rest)"
proof -
  let ?old = "AxesImage (RgbaImage (NormBounds NormalizeClass (Num 0) (Num 10)) ''cat10_mod''
               [[Num 0, NaN], [NaN, Num 0]]) [0, 5, 0, 5] 2 ''nearest'' 1"
  have o: "h_overlay_histogram_image (final_state example_histogram) = Some ?old"
    by code_simp
  have b: "broadcast_indices (Scalar (PyInt 3)) (h_data (final_state example_histogram))
       = Inr (Some (IntArr [3, 3, 3]))"
    by code_simp
  from overlay_removed_before_redrawn[OF o b] o b show ?thesis by blast
qed

text \<open>
  The claim as stated fails: on the example histogram the old overlay image is removed
  first and the new one drawn after it.
\<close>

theorem overlay_removed_first_counterexample:
  "h_overlay_histogram_image (final_state example_histogram)
     = Some (AxesImage (RgbaImage (NormBounds NormalizeClass (Num 0) (Num 10)) ''cat10_mod''
               [[Num 0, NaN], [NaN, Num 0]]) [0, 5, 0, 5] 2 ''nearest'' 1)
   \<and> drop (length (h_events (final_state example_histogram)))
        (h_events (final_state
           (Histogram2D_color_indices_setter (Scalar (PyInt 3)) (final_state example_histogram))))
     = [ImageRemove (AxesImage (RgbaImage (NormBounds NormalizeClass (Num 0) (Num 10))
          ''cat10_mod'' [[Num 0, NaN], [NaN, Num 0]]) [0, 5, 0, 5] 2 ''nearest'' 1),
        Imshow (AxesImage (RgbaImage (NormBounds NormalizeClass (Num 0) (Num 10))
          ''cat10_mod'' [[Num 3, NaN], [NaN, Num 3]]) [0, 5, 0, 5] 2 ''nearest'' 1),
        ColorIndicesChanged (Some (IntArr [3, 3, 3])), DrawIdle]
   \<and> \<not> overlay_kept_until_replaced
        (AxesImage (RgbaImage (NormBounds NormalizeClass (Num 0) (Num 10)) ''cat10_mod''
           [[Num 0, NaN], [NaN, Num 0]]) [0, 5, 0, 5] 2 ''nearest'' 1)
        (drop (length (h_events (final_state example_histogram)))
           (h_events (final_state
              (Histogram2D_color_indices_setter (Scalar (PyInt 3)) (final_state example_histogram)))))"
  by code_simp

section \<open>The color indices after a data update\<close>

text \<open>
  Claim C3, as amended. When a data setter is given \<open>N > 0\<close> points and returns, the color
  indices are an array of length \<open>N\<close>. For a \<^verbatim>\<open>Histogram2D\<close>, and for a \<^verbatim>\<open>Scatter\<close> that
  had drawn its points before and does not colour through the \<^verbatim>\<open>log\<close> branch, the array
  keeps its dtype, its first \<open>min(M, N)\<close> entries are those of the old array of length \<open>M\<close>,
  and the entries from \<open>M\<close> on are \<open>0\<close>. For a \<^verbatim>\<open>Scatter\<close> with a continuous colormap in
  \<^verbatim>\<open>log\<close> mode whose color indices are a float array, the array stays a float array and
  holds these entries after the clamp of the \<^verbatim>\<open>log\<close> branch: an entry \<open>\<le> 0\<close>, the \<open>0\<close> of
  a new position included, is \<open>0.01\<close>, and every other entry is kept.
\<close>

theorem data_setter_resizes_color_indices:
  "(Scatter_data_setter (Some d) s = Returned () s' \<and> d \<noteq> [] \<and> s_color_indices s = Some old \<longrightarrow>
      (\<exists>new. s_color_indices s' = Some new \<and> len new = length d
         \<and> (s_scatter s \<noteq> None
              \<and> (categorical (s_overlay_colormap s) \<or> s_color_normalization_method s \<noteq> ''log'')
              \<longrightarrow> dtype_of new = dtype_of old
                \<and> (\<forall>i<length d. as_floats new ! i
                                    = (if i < len old then as_floats old ! i else Num 0)))
         \<and> (s_scatter s \<noteq> None
              \<and> \<not> categorical (s_overlay_colormap s) \<and> s_color_normalization_method s = ''log''
              \<and> dtype_of old = Float64
              \<longrightarrow> dtype_of new = Float64
                \<and> (\<forall>i<length d. as_floats new ! i
                      = (let v = (if i < len old then as_floats old ! i else Num 0)
                         in if fle0 v then Num (1 / 100) else v)))))
   \<and> (Histogram2D_data_setter (Some d2) h = Returned () h' \<and> d2 \<noteq> []
        \<and> h_color_indices h = Some old2 \<longrightarrow>
      (\<exists>new. h_color_indices h' = Some new \<and> len new = length d2
         \<and> dtype_of new = dtype_of old2
         \<and> (\<forall>i<length d2. as_floats new ! i
                              = (if i < len old2 then as_floats old2 ! i else Num 0))))"
proof (intro conjI impI)
  assume a: "Scatter_data_setter (Some d) s = Returned () s' \<and> d \<noteq> [] \<and> s_color_indices s = Some old"
  then have run: "Scatter_data_setter (Some d) s = Returned () s'" and d: "d \<noteq> []"
    and old: "s_color_indices s = Some old" by simp_all
  from scatter_data_setter_color_indices[OF run d old] obtain new where
    new: "s_color_indices s' = Some new" "len new = length d"
    and drawn: "s_scatter s \<noteq> None \<longrightarrow>
           new = (if scatter_clamps s
                  then assign_nonpositive (resize_color_indices old (length d)) (Num (1 / 100))
                  else resize_color_indices old (length d))"
    by blast
  let ?r = "resize_color_indices old (length d)"
  have plain: "dtype_of new = dtype_of old
      \<and> (\<forall>i<length d. as_floats new ! i = (if i < len old then as_floats old ! i else Num 0))"
    if "s_scatter s \<noteq> None
          \<and> (categorical (s_overlay_colormap s) \<or> s_color_normalization_method s \<noteq> ''log'')"
  proof -
    from that drawn have "new = ?r" by (auto simp: scatter_clamps_def)
    then show ?thesis by (simp add: dtype_resize_color_indices nth_resize_color_indices)
  qed
  have clamped: "dtype_of new = Float64
      \<and> (\<forall>i<length d. as_floats new ! i
            = (let v = (if i < len old then as_floats old ! i else Num 0)
               in if fle0 v then Num (1 / 100) else v))"
    if "s_scatter s \<noteq> None
          \<and> \<not> categorical (s_overlay_colormap s) \<and> s_color_normalization_method s = ''log''
          \<and> dtype_of old = Float64"
  proof -
    from that drawn have n: "new = assign_nonpositive ?r (Num (1 / 100))"
      by (simp add: scatter_clamps_def)
    have fl: "dtype_of ?r = Float64" using that by (simp add: dtype_resize_color_indices)
    have "as_floats new ! i
            = (let v = (if i < len old then as_floats old ! i else Num 0)
               in if fle0 v then Num (1 / 100) else v)" if "i < length d" for i
      using that nth_assign_nonpositive_float[OF fl, of i "Num (1 / 100)"]
        nth_resize_color_indices[OF that, of old]
      by (simp add: n len_resize_color_indices Let_def)
    then show ?thesis using fl by (simp add: n)
  qed
  from new plain clamped
  show "\<exists>new. s_color_indices s' = Some new \<and> len new = length d
         \<and> (s_scatter s \<noteq> None
              \<and> (categorical (s_overlay_colormap s) \<or> s_color_normalization_method s \<noteq> ''log'')
              \<longrightarrow> dtype_of new = dtype_of old
                \<and> (\<forall>i<length d. as_floats new ! i
                                    = (if i < len old then as_floats old ! i else Num 0)))
         \<and> (s_scatter s \<noteq> None
              \<and> \<not> categorical (s_overlay_colormap s) \<and> s_color_normalization_method s = ''log''
              \<and> dtype_of old = Float64
              \<longrightarrow> dtype_of new = Float64
                \<and> (\<forall>i<length d. as_floats new ! i
                      = (let v = (if i < len old then as_floats old ! i else Num 0)
                         in if fle0 v then Num (1 / 100) else v)))"
    by (intro exI[of _ new]) blast
next
  assume a: "Histogram2D_data_setter (Some d2) h = Returned () h' \<and> d2 \<noteq> []
        \<and> h_color_indices h = Some old2"
  then have "h_color_indices h' = Some (resize_color_indices old2 (length d2))"
    using histogram_data_setter_color_indices[of d2 h h' old2] by simp
  then show "\<exists>new. h_color_indices h' = Some new \<and> len new = length d2
         \<and> dtype_of new = dtype_of old2
         \<and> (\<forall>i<length d2. as_floats new ! i
                              = (if i < len old2 then as_floats old2 ! i else Num 0))"
    by (simp add: len_resize_color_indices dtype_resize_color_indices nth_resize_color_indices)
qed

theorem data_setter_resizes_color_indices_witness:
  "returned (Scatter_data_setter (Some [(0, 0), (1, 1), (2, 2)]) (final_state example_scatter))
   \<and> s_color_indices (final_state example_scatter) = Some (IntArr [1, 2])
   \<and> s_color_indices (final_state
        (Scatter_data_setter (Some [(0, 0), (1, 1), (2, 2)]) (final_state example_scatter)))
       = Some (IntArr [1, 2, 0])
   \<and> returned (Scatter_data_setter (Some [(0, 0), (1, 1), (2, 2)]) (final_state example_log_scatter))
   \<and> s_color_indices (final_state example_log_scatter) = Some (FloatArr [Num 1, Num 2])
   \<and> s_color_indices (final_state
        (Scatter_data_setter (Some [(0, 0), (1, 1), (2, 2)]) (final_state example_log_scatter)))
       = Some (FloatArr [Num 1, Num 2, Num (1 / 100)])
   \<and> returned (Histogram2D_data_setter (Some [(0, 0), (3, 4)]) (final_state example_colored_histogram))
   \<and> h_color_indices (final_state example_colored_histogram) = Some (IntArr [4, 5, 6])
   \<and> h_color_indices (final_state
        (Histogram2D_data_setter (Some [(0, 0), (3, 4)]) (final_state example_colored_histogram)))
       = Some (IntArr [4, 5])
   \<and> (\<exists>new. s_color_indices (final_state
          (Scatter_data_setter (Some [(0, 0), (1, 1), (2, 2)]) (final_state example_scatter)))
         = Some new \<and> len new = 3 \<and> dtype_of new = Int64
         \<and> as_floats new ! 0 = Num 1 \<and> as_floats new ! 1 = Num 2 \<and> as_floats new ! 2 = Num 0)
   \<and> (\<exists>new. s_color_indices (final_state
          (Scatter_data_setter (Some [(0, 0), (1, 1), (2, 2)]) (final_state example_log_scatter)))
         = Some new \<and> len new = 3 \<and> dtype_of new = Float64
         \<and> as_floats new ! 0 = Num 1 \<and> as_floats new ! 1 = Num 2
         \<and> as_floats new ! 2 = Num (1 / 100))
   \<and> (\<exists>new. h_color_indices (final_state
          (Histogram2D_data_setter (Some [(0, 0), (3, 4)]) (final_state example_colored_histogram)))
         = Some new \<and> len new = 2 \<and> dtype_of new = Int64
         \<and> as_floats new ! 0 = Num 4 \<and> as_floats new ! 1 = Num 5)"
proof -
  let ?d = "[(0, 0), (1, 1), (2, 2) :: rat \<times> rat]"
  let ?s = "final_state example_scatter" and ?l = "final_state example_log_scatter"
  let ?h = "final_state example_colored_histogram"
  let ?ms = "Scatter_data_setter (Some ?d) ?s" and ?ml = "Scatter_data_setter (Some ?d) ?l"
  let ?mh = "Histogram2D_data_setter (Some [(0, 0), (3, 4)]) ?h"
  have rs: "returned ?ms" by code_simp
  have os: "s_color_indices ?s = Some (IntArr [1, 2])" by code_simp
  have ns: "s_color_indices (final_state ?ms) = Some (IntArr [1, 2, 0])" by code_simp
  have cs: "s_scatter ?s \<noteq> None" "categorical (s_overlay_colormap ?s)" by code_simp+
  have rl: "returned ?ml" by code_simp
  have ol: "s_color_indices ?l = Some (FloatArr [Num 1, Num 2])" by code_simp
  have nl: "s_color_indices (final_state ?ml) = Some (FloatArr [Num 1, Num 2, Num (1 / 100)])"
    by code_simp
  have cl: "s_scatter ?l \<noteq> None" "\<not> categorical (s_overlay_colormap ?l)"
    "s_color_normalization_method ?l = ''log''" by code_simp+
  have rh: "returned ?mh" by code_simp
  have oh: "h_color_indices ?h = Some (IntArr [4, 5, 6])" by code_simp
  have nh: "h_color_indices (final_state ?mh) = Some (IntArr [4, 5])" by code_simp
  from data_setter_resizes_color_indices[of ?d ?s "final_state ?ms"
      "IntArr [1, 2]" "[(0, 0), (3, 4)]" ?h "final_state ?mh" "IntArr [4, 5, 6]"]
    returned_final_state[OF rs] returned_final_state[OF rh] os oh cs
  obtain new1 new2 where
    n1: "s_color_indices (final_state ?ms) = Some new1" "len new1 = 3" "dtype_of new1 = Int64"
    and e1: "\<forall>i<3. as_floats new1 ! i = (if i < 2 then as_floats (IntArr [1, 2]) ! i else Num 0)"
    and n2: "h_color_indices (final_state ?mh) = Some new2" "len new2 = 2" "dtype_of new2 = Int64"
    and e2: "\<forall>i<2. as_floats new2 ! i = (if i < 3 then as_floats (IntArr [4, 5, 6]) ! i else Num 0)"
    by auto
  have "as_floats new1 ! 0 = Num 1" "as_floats new1 ! 1 = Num 2" "as_floats new1 ! 2 = Num 0"
    using e1[rule_format, of 0] e1[rule_format, of 1] e1[rule_format, of 2] by simp_all
  moreover have "as_floats new2 ! 0 = Num 4" "as_floats new2 ! 1 = Num 5"
    using e2[rule_format, of 0] e2[rule_format, of 1] by simp_all
  ultimately have a: "(\<exists>new. s_color_indices (final_state ?ms) = Some new \<and> len new = 3
         \<and> dtype_of new = Int64
         \<and> as_floats new ! 0 = Num 1 \<and> as_floats new ! 1 = Num 2 \<and> as_floats new ! 2 = Num 0)
      \<and> (\<exists>new. h_color_indices (final_state ?mh) = Some new \<and> len new = 2 \<and> dtype_of new = Int64
         \<and> as_floats new ! 0 = Num 4 \<and> as_floats new ! 1 = Num 5)"
    using n1 n2 by simp
  have b: "\<exists>new. s_color_indices (final_state ?ml) = Some new \<and> len new = 3
         \<and> dtype_of new = Float64
         \<and> as_floats new ! 0 = Num 1 \<and> as_floats new ! 1 = Num 2
         \<and> as_floats new ! 2 = Num (1 / 100)"
  proof -
    have "Scatter_data_setter (Some ?d) ?l = Returned () (final_state ?ml) \<and> ?d \<noteq> []
            \<and> s_color_indices ?l = Some (FloatArr [Num 1, Num 2])"
      using returned_final_state[OF rl] ol by simp
    with data_setter_resizes_color_indices[of ?d ?l "final_state ?ml" "FloatArr [Num 1, Num 2]",
        THEN conjunct1]
    obtain new where n3: "s_color_indices (final_state ?ml) = Some new" "len new = length ?d"
      and "s_scatter ?l \<noteq> None \<and> \<not> categorical (s_overlay_colormap ?l)
             \<and> s_color_normalization_method ?l = ''log''
             \<and> dtype_of (FloatArr [Num 1, Num 2]) = Float64
           \<longrightarrow> dtype_of new = Float64
             \<and> (\<forall>i<length ?d. as_floats new ! i
                   = (let v = (if i < len (FloatArr [Num 1, Num 2])
                               then as_floats (FloatArr [Num 1, Num 2]) ! i else Num 0)
                      in if fle0 v then Num (1 / 100) else v))"
      by blast
    with cl have n4: "dtype_of new = Float64"
      and e3: "\<forall>i<3. as_floats new ! i
                   = (let v = (if i < 2 then [Num 1, Num 2] ! i else Num 0)
                      in if fle0 v then Num (1 / 100) else v)"
      by simp_all
    have "as_floats new ! 0 = Num 1" "as_floats new ! 1 = Num 2" "as_floats new ! 2 = Num (1 / 100)"
      using e3[rule_format, of 0] e3[rule_format, of 1] e3[rule_format, of 2] by simp_all
    with n3 n4 show ?thesis by simp
  qed
  from rs os ns rl ol nl rh oh nh a b show ?thesis by simp
qed

text \<open>
  The claim as stated fails on a scatter in \<^verbatim>\<open>log\<close> mode: the entry added for the third point
  is \<open>0.01\<close>, not \<open>0\<close>.
\<close>

theorem log_scatter_fill_counterexample:
  "returned (Scatter_data_setter (Some [(0, 0), (1, 1), (2, 2)]) (final_state example_log_scatter))
   \<and> s_color_indices (final_state example_log_scatter) = Some (FloatArr [Num 1, Num 2])
   \<and> s_color_indices (final_state
        (Scatter_data_setter (Some [(0, 0), (1, 1), (2, 2)]) (final_state example_log_scatter)))
       = Some (FloatArr [Num 1, Num 2, Num (1 / 100)])"
  by code_simp

section \<open>Points on the last edge\<close>

text \<open>
  Claim C1, at the input \<^verbatim>\<open>data = [[0,0],[0,0],[5,5]]\<close>, \<^verbatim>\<open>bins = 2\<close>. The histogram counts
  the point \<open>(5, 5)\<close> in its last bin, and \<^verbatim>\<open>indices_in_patches_above_threshold(-1)\<close>, for
  which every bin exceeds the threshold, returns the indices \<open>0\<close> and \<open>1\<close> only: the point
  on the last edge is in no half-open interval.
\<close>

theorem indices_in_patches_misses_point_on_last_edge:
  "returned example_histogram
   \<and> h_data (final_state example_histogram) = Some [(0, 0), (0, 0), (5, 5)]
   \<and> h_histogram (final_state example_histogram)
       = Some ([[Num 2, Num 0], [Num 0, Num 1]], [0, 5 / 2, 5], [0, 5 / 2, 5])
   \<and> indices_in_patches_above_threshold (- 1) (final_state example_histogram) = Inr [0, 1]"
  by code_simp

section \<open>The log floor in an integer array\<close>

text \<open>
  Claim C7, at the input \<^verbatim>\<open>color_indices = np.array([0, 5])\<close> on a scatter with a continuous
  colormap in \<^verbatim>\<open>log\<close> mode. The lower bound of the normalization is \<open>0.01\<close>, and the entry
  \<open>0\<close> of the integer array stays \<open>0\<close>: the floor is truncated when it is stored.
\<close>

theorem log_floor_truncated_in_integer_indices:
  "returned (Scatter_color_indices_setter (Array (IntArr [0, 5])) (final_state example_log_scatter))
   \<and> s_color_indices (final_state
        (Scatter_color_indices_setter (Array (IntArr [0, 5])) (final_state example_log_scatter)))
       = Some (IntArr [0, 5])
   \<and> map_option pc_facecolor (s_scatter (final_state
        (Scatter_color_indices_setter (Array (IntArr [0, 5])) (final_state example_log_scatter))))
       = Some (Some (ToRgba (NormBounds LogNormClass (Num (1 / 100)) (Num 5)) ''magma''
                       (IntArr [0, 5])))"
  by code_simp

section \<open>Categorical indices of another integer type\<close>

text \<open>
  Claim C8, at the input \<^verbatim>\<open>color_indices = np.array([1, 2], dtype=np.int32)\<close> on the example
  scatter: two points, a categorical colormap of \<open>10\<close> colours, the method \<^verbatim>\<open>linear\<close>. Both
  entries are integers in \<open>[0, 10)\<close>, and the setter issues the warning
  \<^verbatim>\<open>Color indices must be integers for categorical colormap\<close>: its test
  \<^verbatim>\<open>dtype != int\<close> compares the dtype with the default integer type only. The same entries
  in an array of the default integer type raise no warning. For both arrays the
  normalization is \<^verbatim>\<open>Normalize(vmin=0, vmax=10)\<close>, under which the indices \<open>1\<close> and \<open>2\<close> get
  the colours in the rows \<open>1\<close> and \<open>2\<close> of the palette.
\<close>

theorem categorical_int32_indices_warned:
  "categorical (s_overlay_colormap (final_state example_scatter))
   \<and> cmap_N (s_overlay_colormap (final_state example_scatter)) = 10
   \<and> s_color_normalization_method (final_state example_scatter) = ''linear''
   \<and> returned (Scatter_color_indices_setter (Array (Int32Arr [1, 2])) (final_state example_scatter))
   \<and> drop (length (s_events (final_state example_scatter)))
        (s_events (final_state
           (Scatter_color_indices_setter (Array (Int32Arr [1, 2])) (final_state example_scatter))))
       = [Warn IndicesMustBeIntegers, ColorIndicesChanged (Some (Int32Arr [1, 2])), DrawIdle]
   \<and> map_option pc_facecolor (s_scatter (final_state
        (Scatter_color_indices_setter (Array (Int32Arr [1, 2])) (final_state example_scatter))))
       = Some (Some (ToRgba (NormBounds NormalizeClass (Num 0) (Num 10)) ''cat10_mod''
                       (Int32Arr [1, 2])))
   \<and> drop (length (s_events (final_state example_scatter)))
        (s_events (final_state
           (Scatter_color_indices_setter (Array (IntArr [1, 2])) (final_state example_scatter))))
       = [ColorIndicesChanged (Some (IntArr [1, 2])), DrawIdle]
   \<and> map_option pc_facecolor (s_scatter (final_state
        (Scatter_color_indices_setter (Array (IntArr [1, 2])) (final_state example_scatter))))
       = Some (Some (ToRgba (NormBounds NormalizeClass (Num 0) (Num 10)) ''cat10_mod''
                       (IntArr [1, 2])))
   \<and> palette_row 10 1 = Inr 1 \<and> palette_row 10 2 = Inr 2"
  by code_simp

section \<open>Further properties of the same code\<close>

text \<open>
  The sum statistic on values that are not finite. A cell that received the two infinities
  holds \<open>NaN\<close> although points were assigned to it, and a \<open>NaN\<close> that is followed by a number
  is dropped from the sum.
\<close>

lemma sum_statistic_of_infinities:
  "calculate_statistic_histogram [0, 0] [0, 0] [PInf, NInf] ''sum'' = Inr [[NaN]]
   \<and> calculate_statistic_histogram [0, 0] [0, 0] [NaN, Num 5] ''sum'' = Inr [[Num 5]]"
  by code_simp

text \<open>
  The sum is the \<^verbatim>\<open>float64\<close> sum: \<open>0.1 + 0.2\<close> is not \<open>0.3\<close> but the \<^verbatim>\<open>float64\<close> next above
  the one nearest to it.
\<close>

lemma sum_statistic_is_rounded:
  "calculate_statistic_histogram [0, 0] [0, 0] [Num (1 / 10), Num (2 / 10)] ''sum''
     = Inr [[Num (5404319552844596 / 18014398509481984)]]"
  by code_simp

text \<open>
  In \<^verbatim>\<open>log\<close> mode an integer array keeps the \<open>0\<close> of a new position: the floor \<open>0.01\<close> is
  truncated when it is stored (the input of claim C7).
\<close>

lemma log_scatter_integer_fill:
  "s_color_indices (final_state
      (then_call (Scatter_color_indices_setter (Array (IntArr [1, 2])) (final_state example_log_scatter))
         (Scatter_data_setter (Some [(0, 0), (1, 1), (2, 2)]))))
     = Some (IntArr [1, 2, 0])"
  by code_simp

text \<open>
  The colours of categorical indices. In a palette of \<open>10\<close> colours every index in
  \<open>[0, 10)\<close> gets the colour in its own row of the lookup table. In a palette of \<open>49\<close>
  colours the index \<open>1\<close> gets the colour in row \<open>0\<close>: \<open>1 / 49\<close> rounded to \<^verbatim>\<open>float64\<close> and
  multiplied by \<open>49\<close> is the \<^verbatim>\<open>float64\<close> below \<open>1\<close>, which is truncated to \<open>0\<close>.
\<close>

lemma palette_rows_of_ten_colours:
  "map (palette_row 10) [0, 1, 2, 3, 4, 5, 6, 7, 8, 9]
     = map Inr [0, 1, 2, 3, 4, 5, 6, 7, 8, 9]"
  by code_simp

lemma palette_row_of_49_colours:
  "normalize (Num 0) (Num 49) (Num 1) = Inr (Num (5882252574524729 / 288230376151711744))
   \<and> fmul (Num (5882252574524729 / 288230376151711744)) (Num 49) = Num (1 - 1 / 2 ^ 53)
   \<and> palette_row 49 1 = Inr 0"
  by code_simp


lemma nanmin_nonempty: "vs \<noteq> [] \<Longrightarrow> \<exists>mn. np_nanmin vs = Inr mn"
  by (auto simp: np_nanmin_def split: list.splits)

lemma nanmax_nonempty: "vs \<noteq> [] \<Longrightarrow> \<exists>mx. np_nanmax vs = Inr mx"
  by (auto simp: np_nanmax_def split: list.splits)

text \<open>
  On a float array the \<^verbatim>\<open>log\<close> branch of the scatter does clamp: with a continuous
  colormap and a non-empty array of minimum \<open>mn\<close> (ignoring \<open>NaN\<close>), the lower bound is
  \<open>0.01\<close> when \<open>mn \<le> 0\<close> and \<open>mn\<close> otherwise, every entry \<open>\<le> 0\<close> becomes \<open>0.01\<close> in the
  stored array, and the warning is issued. With a positive minimum the array is unchanged.
\<close>

theorem scatter_log_branch_on_floats:
  assumes "\<not> categorical (s_overlay_colormap s)" "s_color_normalization_method s = ''log''"
    and "np_nanmin vs = Inr mn"
  shows "\<exists>mx. Scatter_norm (FloatArr vs) cls s
           = Returned (NormBounds cls (if fle0 mn then Num (1 / 100) else mn) mx,
                       FloatArr (map (\<lambda>v. if fle0 v then Num (1 / 100) else v) vs))
               ((s_emit (Warn (LogNormalizationApplied (if fle0 mn then Num (1 / 100) else mn))) s)
                  \<lparr>s_color_indices :=
                     Some (FloatArr (map (\<lambda>v. if fle0 v then Num (1 / 100) else v) vs))\<rparr>)"
    and "\<not> fle0 mn \<Longrightarrow> map (\<lambda>v. if fle0 v then Num (1 / 100) else v) vs = vs"
proof -
  from assms(3) have "vs \<noteq> []" by (auto simp: np_nanmin_def)
  then obtain mx where mx: "np_nanmax vs = Inr mx" using nanmax_nonempty by blast
  have fl: "assign_nonpositive (FloatArr vs) (if fle0 mn then Num (1 / 100) else mn)
              = FloatArr (map (\<lambda>v. if fle0 v then Num (1 / 100) else v) vs)"
    using log_floor[of "FloatArr vs" mn] assms(3) by simp
  show "\<exists>mx. Scatter_norm (FloatArr vs) cls s
           = Returned (NormBounds cls (if fle0 mn then Num (1 / 100) else mn) mx,
                       FloatArr (map (\<lambda>v. if fle0 v then Num (1 / 100) else v) vs))
               ((s_emit (Warn (LogNormalizationApplied (if fle0 mn then Num (1 / 100) else mn))) s)
                  \<lparr>s_color_indices :=
                     Some (FloatArr (map (\<lambda>v. if fle0 v then Num (1 / 100) else v) vs))\<rparr>)"
    using assms mx fl by (intro exI[of _ mx]) (simp add: Scatter_norm_def Let_def)
  show "map (\<lambda>v. if fle0 v then Num (1 / 100) else v) vs = vs" if "\<not> fle0 mn"
    using nanmin_positive[OF assms(3) that] by (intro map_idI) simp
qed

text \<open>The same for a grid of the histogram, on the base image and on the overlay.\<close>

theorem histogram_log_branch:
  assumes "color_normalization_method is_overlay s = ''log''"
    and "np_nanmin (concat g) = Inr mn"
  shows "\<exists>mx. handle_norm_method_for_continuous_colormap is_overlay cls g (3 / 100) (1 / 100) s
           = Returned (NormBounds cls (if fle0 mn then Num (1 / 100) else mn) mx,
                       map (map (\<lambda>v. if fle0 v then Num (1 / 100) else v)) g)
               (h_emit (Warn (LogNormalizationApplied (if fle0 mn then Num (1 / 100) else mn))) s)"
    and "\<not> fle0 mn \<Longrightarrow> map (map (\<lambda>v. if fle0 v then Num (1 / 100) else v)) g = g"
proof -
  from assms(2) have "concat g \<noteq> []" by (auto simp: np_nanmin_def split: if_splits)
  then obtain mx where mx: "np_nanmax (concat g) = Inr mx" using nanmax_nonempty by blast
  have pos: "\<not> fle0 v" if "\<not> fle0 mn" "v \<in> set r" "r \<in> set g" for v r
    using nanmin_positive[OF assms(2) that(1), of v] that(2,3) by auto
  have same: "map (map (\<lambda>v. if fle0 v then c else v)) g = g" if "\<not> fle0 mn" for c
    using pos[OF that] by (intro map_idI) simp
  have fl: "assign_nonpositive2 g (if fle0 mn then Num (1 / 100) else mn)
              = map (map (\<lambda>v. if fle0 v then Num (1 / 100) else v)) g"
    using same by (cases "fle0 mn") (simp_all add: assign_nonpositive2_def)
  show "\<exists>mx. handle_norm_method_for_continuous_colormap is_overlay cls g (3 / 100) (1 / 100) s
           = Returned (NormBounds cls (if fle0 mn then Num (1 / 100) else mn) mx,
                       map (map (\<lambda>v. if fle0 v then Num (1 / 100) else v)) g)
               (h_emit (Warn (LogNormalizationApplied (if fle0 mn then Num (1 / 100) else mn))) s)"
    using assms mx fl
    by (intro exI[of _ mx]) (simp add: handle_norm_method_for_continuous_colormap_def Let_def)
  show "map (map (\<lambda>v. if fle0 v then Num (1 / 100) else v)) g = g" if "\<not> fle0 mn"
    using same[OF that] .
qed

text \<open>
  With a categorical colormap of size \<open>K\<close>, the method \<^verbatim>\<open>linear\<close> and an array of the
  default integer type, the scatter's setter issues no warning and hands Matplotlib the
  normalization \<^verbatim>\<open>Normalize(vmin=0, vmax=K)\<close> with the indices as they are.
\<close>

theorem categorical_integer_indices_no_warning:
  assumes "categorical (s_overlay_colormap s)" "s_color_normalization_method s = ''linear''"
    and "s_scatter s = Some sc"
  shows "Scatter_color_indices_setter (Array (IntArr xs)) s
           = Returned ()
               (s\<lparr>s_color_indices := Some (IntArr xs),
                   s_scatter := Some (sc\<lparr>pc_facecolor :=
                      Some (ToRgba (NormBounds NormalizeClass (Num 0)
                                      (Num (of_nat (cmap_N (s_overlay_colormap s)))))
                              (cmap (s_overlay_colormap s)) (IntArr xs))\<rparr>),
                   s_events := s_events s @ [ColorIndicesChanged (Some (IntArr xs)), DrawIdle]\<rparr>)"
  using assms
  by (simp add: Scatter_color_indices_setter_def Scatter_recolor_def Scatter_norm_def
      normalization_methods_def Scatter_draw_def s_emit_def Let_def)

text \<open>
  On the example histogram, color indices that are all \<open>NaN\<close> remove the overlay image and
  draw no new one.
\<close>

lemma overlay_not_redrawn_for_nan_indices:
  "returned (Histogram2D_color_indices_setter (Array (FloatArr [NaN, NaN, NaN]))
              (final_state example_histogram))
   \<and> h_overlay_histogram_image (final_state
        (Histogram2D_color_indices_setter (Array (FloatArr [NaN, NaN, NaN]))
           (final_state example_histogram))) = None"
  by code_simp

lemma set_where_in_bin:
  "set (where_in_bin d x_min x_max y_min y_max)
     = {k. k < length d \<and> x_min \<le> fst (d ! k) \<and> fst (d ! k) < x_max
             \<and> y_min \<le> snd (d ! k) \<and> snd (d ! k) < y_max}"
  by (auto simp: where_in_bin_def case_prod_beta)

lemma in_argwhere_gt:
  "(bx, by) \<in> set (argwhere_gt histogram t)
     \<longleftrightarrow> (\<exists>i j. bx = int i \<and> by = int j \<and> i < length histogram \<and> j < length (histogram ! i)
                 \<and> fgt (histogram ! i ! j) (of_int t))"
proof
  assume "(bx, by) \<in> set (argwhere_gt histogram t)"
  then obtain i row j v where
    "(i, row) \<in> set (enumerate 0 histogram)" "(j, v) \<in> set (enumerate 0 row)"
    "fgt v (of_int t)" "bx = int i" "by = int j"
    unfolding argwhere_gt_def by auto
  then show "\<exists>i j. bx = int i \<and> by = int j \<and> i < length histogram \<and> j < length (histogram ! i)
                 \<and> fgt (histogram ! i ! j) (of_int t)"
    by (auto simp: in_set_enumerate_eq)
next
  assume "\<exists>i j. bx = int i \<and> by = int j \<and> i < length histogram \<and> j < length (histogram ! i)
                 \<and> fgt (histogram ! i ! j) (of_int t)"
  then obtain i j where ij: "bx = int i" "by = int j" "i < length histogram"
    "j < length (histogram ! i)" "fgt (histogram ! i ! j) (of_int t)" by blast
  then have "(i, histogram ! i) \<in> set (enumerate 0 histogram)"
    "(j, histogram ! i ! j) \<in> set (enumerate 0 (histogram ! i))"
    by (simp_all add: in_set_enumerate_eq)
  with ij show "(bx, by) \<in> set (argwhere_gt histogram t)"
    unfolding argwhere_gt_def by force
qed

lemma getitem1_nat: "getitem1 a (int i) = Inr v \<Longrightarrow> v = a ! i \<and> i < length a"
  by (auto simp: getitem1_def norm_index_def split: if_splits)

lemma getitem1_nat_Suc: "getitem1 a (int i + 1) = Inr v \<Longrightarrow> v = a ! (i + 1) \<and> i + 1 < length a"
  using getitem1_nat[of a "i + 1" v] by (simp add: add.commute)

lemma patches_loop_set:
  assumes "patches_loop bins x_edges y_edges (Some d) acc = Inr r"
    and "\<forall>(bx, by) \<in> set bins. 0 \<le> bx \<and> 0 \<le> by"
  shows "set r = set acc \<union>
     {k. k < length d \<and> (\<exists>(bx, by) \<in> set bins.
            x_edges ! nat bx \<le> fst (d ! k) \<and> fst (d ! k) < x_edges ! (nat bx + 1)
          \<and> y_edges ! nat by \<le> snd (d ! k) \<and> snd (d ! k) < y_edges ! (nat by + 1))}"
  using assms
proof (induction bins arbitrary: acc)
  case Nil
  then show ?case by simp
next
  case (Cons b bins)
  obtain bx "by" where b: "b = (bx, by)" by (cases b)
  from Cons.prems(2) b have "0 \<le> bx" "0 \<le> by" by auto
  then obtain i j where ij: "bx = int i" "by = int j"
    using zero_le_imp_eq_int by blast
  from Cons.prems(1) obtain x_min x_max y_min y_max where
    g: "getitem1 x_edges (int i) = Inr x_min" "getitem1 x_edges (int i + 1) = Inr x_max"
       "getitem1 y_edges (int j) = Inr y_min" "getitem1 y_edges (int j + 1) = Inr y_max"
    and rest: "patches_loop bins x_edges y_edges (Some d)
                 (acc @ where_in_bin d x_min x_max y_min y_max) = Inr r"
    by (auto simp: b ij and_then_def split: sum.splits)
  from g have e: "x_min = x_edges ! i" "x_max = x_edges ! (i + 1)"
    "y_min = y_edges ! j" "y_max = y_edges ! (j + 1)"
    by (auto dest: getitem1_nat getitem1_nat_Suc)
  from Cons.IH[OF rest] Cons.prems(2) show ?case
    by (auto simp: b ij e set_where_in_bin)
qed

text \<open>
  When \<^verbatim>\<open>indices_in_patches_above_threshold(t)\<close> returns, the indices it returns are those
  of the points inside the half-open rectangle of a bin whose count exceeds \<open>t\<close>.
\<close>

theorem indices_in_patches_half_open_members:
  assumes "indices_in_patches_above_threshold t s = Inr r"
    and "h_histogram s = Some (histogram, x_edges, y_edges)" and "h_data s = Some d"
  shows "set r = {k. k < length d \<and>
           (\<exists>i < length histogram. \<exists>j < length (histogram ! i).
               fgt (histogram ! i ! j) (of_int t)
             \<and> x_edges ! i \<le> fst (d ! k) \<and> fst (d ! k) < x_edges ! (i + 1)
             \<and> y_edges ! j \<le> snd (d ! k) \<and> snd (d ! k) < y_edges ! (j + 1))}"
proof -
  from assms have run: "patches_loop (argwhere_gt histogram t) x_edges y_edges (Some d) [] = Inr r"
    by (simp add: indices_in_patches_above_threshold_def)
  have nonneg: "\<forall>(bx, by) \<in> set (argwhere_gt histogram t). 0 \<le> bx \<and> 0 \<le> by"
    by (auto simp: in_argwhere_gt)
  have "(\<exists>(bx, by) \<in> set (argwhere_gt histogram t).
            x_edges ! nat bx \<le> x \<and> x < x_edges ! (nat bx + 1)
          \<and> y_edges ! nat by \<le> y \<and> y < y_edges ! (nat by + 1))
     \<longleftrightarrow> (\<exists>i < length histogram. \<exists>j < length (histogram ! i).
               fgt (histogram ! i ! j) (of_int t)
             \<and> x_edges ! i \<le> x \<and> x < x_edges ! (i + 1)
             \<and> y_edges ! j \<le> y \<and> y < y_edges ! (j + 1))" (is "?L \<longleftrightarrow> ?R") for x y
  proof
    assume ?L
    then obtain bx "by" where m: "(bx, by) \<in> set (argwhere_gt histogram t)"
      and c: "x_edges ! nat bx \<le> x" "x < x_edges ! (nat bx + 1)"
        "y_edges ! nat by \<le> y" "y < y_edges ! (nat by + 1)"
      by blast
    from m obtain i j where "bx = int i" "by = int j" "i < length histogram"
      "j < length (histogram ! i)" "fgt (histogram ! i ! j) (of_int t)"
      unfolding in_argwhere_gt by blast
    with c show ?R by auto
  next
    assume ?R
    then obtain i j where ij: "i < length histogram" "j < length (histogram ! i)"
      "fgt (histogram ! i ! j) (of_int t)"
      and c: "x_edges ! i \<le> x" "x < x_edges ! (i + 1)" "y_edges ! j \<le> y" "y < y_edges ! (j + 1)"
      by blast
    from ij have "(int i, int j) \<in> set (argwhere_gt histogram t)"
      unfolding in_argwhere_gt by blast
    with c show ?L by (intro bexI[of _ "(int i, int j)"]) simp_all
  qed
  then show ?thesis
    unfolding patches_loop_set[OF run nonneg] by simp
qed

end
